theory Spec2Isabelle
  imports Complex_Main "HOL-Library.Char_ord" "HOL-Library.List_Lexorder"
    "HOL-Library.Product_Lexorder"
begin

section \<open>Numbers: the float64 values of pandas columns\<close>

text \<open>
  The numeric columns of the three tables are float64 columns. A float64 value is a finite
  binary64 number, one of the two infinities, or NaN; pandas uses NaN as its marker for a
  missing cell. A finite value is modelled by the real number it denotes. The two zeros are
  identified (the sign of a zero is not tracked).
\<close>

datatype float64 = is_Fin: Fin (real_of: real) | PInf | NInf | NaN

definition pow2 :: "int \<Rightarrow> real" where
  "pow2 e = (if 0 \<le> e then 2 ^ nat e else 1 / 2 ^ nat (- e))"

text \<open>
  Rounding to binary64, round-to-nearest, ties to even. A positive number is scaled by
  powers of two into the range of a 53-bit significand, the exponent being kept between
  -1074 (the subnormals) and 971 (the largest finite numbers), and the significand is then
  rounded to an integer.
\<close>

function scale_down :: "real \<Rightarrow> int \<Rightarrow> real \<times> int" where
  "scale_down m e = (if 2 ^ 53 \<le> m \<and> e < 971 then scale_down (m / 2) (e + 1) else (m, e))"
  by pat_completeness auto
termination
  by (relation "measure (\<lambda>(m, e). nat (971 - e))") auto

function scale_up :: "real \<Rightarrow> int \<Rightarrow> real \<times> int" where
  "scale_up m e = (if m < 2 ^ 52 \<and> - 1074 < e then scale_up (2 * m) (e - 1) else (m, e))"
  by pat_completeness auto
termination
  by (relation "measure (\<lambda>(m, e). nat (e + 1074))") auto

declare scale_down.simps [simp del] scale_up.simps [simp del]

definition round_half_even :: "real \<Rightarrow> int" where
  "round_half_even m =
     (let n = \<lfloor>m\<rfloor>; d = m - of_int n
      in if d < 1 / 2 then n else if 1 / 2 < d then n + 1
         else if even n then n else n + 1)"

definition round_pos :: "real \<Rightarrow> real option" where
  "round_pos x =
     (let (m1, e1) = scale_down x 0; (m, e) = scale_up m1 e1
      in if 2 ^ 53 \<le> m then None
         else let n = round_half_even m
              in if n = 2 ^ 53 \<and> e = 971 then None else Some (of_int n * pow2 e))"

definition round64 :: "real \<Rightarrow> float64" where
  "round64 x =
     (if x = 0 then Fin 0
      else if 0 < x then (case round_pos x of None \<Rightarrow> PInf | Some y \<Rightarrow> Fin y)
      else (case round_pos (- x) of None \<Rightarrow> NInf | Some y \<Rightarrow> Fin (- y)))"

text \<open>
  The arithmetic of float64 values (IEEE 754; numpy scalars divide by zero without raising:
  the result is NaN or an infinity). A zero divisor is taken to be +0.
\<close>

fun fadd :: "float64 \<Rightarrow> float64 \<Rightarrow> float64" where
  "fadd NaN _ = NaN"
| "fadd _ NaN = NaN"
| "fadd PInf NInf = NaN"
| "fadd NInf PInf = NaN"
| "fadd PInf _ = PInf"
| "fadd _ PInf = PInf"
| "fadd NInf _ = NInf"
| "fadd _ NInf = NInf"
| "fadd (Fin a) (Fin b) = round64 (a + b)"

fun fneg :: "float64 \<Rightarrow> float64" where
  "fneg (Fin a) = Fin (- a)"
| "fneg PInf = NInf"
| "fneg NInf = PInf"
| "fneg NaN = NaN"

definition fsub :: "float64 \<Rightarrow> float64 \<Rightarrow> float64" where
  "fsub a b = fadd a (fneg b)"

fun fsign :: "float64 \<Rightarrow> int" where
  "fsign (Fin a) = (if a < 0 then - 1 else if a = 0 then 0 else 1)"
| "fsign PInf = 1"
| "fsign NInf = - 1"
| "fsign NaN = 0"

definition inf_of_sign :: "int \<Rightarrow> float64" where
  "inf_of_sign s = (if s = 0 then NaN else if 0 < s then PInf else NInf)"

fun fmul :: "float64 \<Rightarrow> float64 \<Rightarrow> float64" where
  "fmul NaN _ = NaN"
| "fmul _ NaN = NaN"
| "fmul (Fin a) (Fin b) = round64 (a * b)"
| "fmul a b = inf_of_sign (fsign a * fsign b)"

fun fdiv :: "float64 \<Rightarrow> float64 \<Rightarrow> float64" where
  "fdiv NaN _ = NaN"
| "fdiv _ NaN = NaN"
| "fdiv (Fin a) (Fin b) = (if b = 0 then inf_of_sign (fsign (Fin a)) else round64 (a / b))"
| "fdiv (Fin a) _ = Fin 0"
| "fdiv a (Fin b) = inf_of_sign (fsign a * (if b < 0 then - 1 else 1))"
| "fdiv _ _ = NaN"

text \<open>
  \<open>Series.sum()\<close> with its default \<open>skipna=True\<close> puts 0 in the place of every NaN and
  adds the array with numpy, which adds float64 arrays by pairwise summation
  (\<open>DOUBLE_pairwise_sum\<close>): fewer than 8 elements are added from left to right, starting
  from 0; up to 128 elements are added into 8 accumulators, element \<open>i\<close> into accumulator
  \<open>i mod 8\<close>, the accumulators are added as \<open>((r0+r1)+(r2+r3))+((r4+r5)+(r6+r7))\<close>, and
  the elements after the last full block of 8 are then added one by one; a longer array is
  split in two (the first part of \<open>n div 2\<close> elements rounded down to a multiple of 8) and
  the sums of the parts are added. The addition is a parameter, since the same additions
  are traced below as exact additions of real numbers.
\<close>

definition sum_tree8 :: "('a \<Rightarrow> 'a \<Rightarrow> 'a) \<Rightarrow> 'a list \<Rightarrow> 'a" where
  "sum_tree8 add r =
     add (add (add (r ! 0) (r ! 1)) (add (r ! 2) (r ! 3)))
         (add (add (r ! 4) (r ! 5)) (add (r ! 6) (r ! 7)))"

function add_blocks :: "('a \<Rightarrow> 'a \<Rightarrow> 'a) \<Rightarrow> 'a list \<Rightarrow> 'a list \<Rightarrow> 'a list \<times> 'a list" where
  "add_blocks add r a =
     (if 8 \<le> length a then add_blocks add (map2 add r (take 8 a)) (drop 8 a) else (r, a))"
  by pat_completeness auto
termination
  by (relation "measure (\<lambda>(add, r, a). length a)") auto

function pairwise_sum :: "('a \<Rightarrow> 'a \<Rightarrow> 'a) \<Rightarrow> 'a \<Rightarrow> 'a list \<Rightarrow> 'a" where
  "pairwise_sum add zero a =
     (let n = length a
      in if n < 8 then foldl add zero a
         else if n \<le> 128 then
           (let (r, rest) = add_blocks add (take 8 a) (drop 8 a)
            in foldl add (sum_tree8 add r) rest)
         else
           (let n2 = n div 2 - (n div 2) mod 8
            in add (pairwise_sum add zero (take n2 a)) (pairwise_sum add zero (drop n2 a))))"
  by pat_completeness auto
termination
  by (relation "measure (\<lambda>(add, zero, a). length a)") auto

declare add_blocks.simps [simp del] pairwise_sum.simps [simp del]

definition nan_to_zero :: "float64 \<Rightarrow> float64" where
  "nan_to_zero v = (if v = NaN then Fin 0 else v)"

definition series_sum :: "float64 list \<Rightarrow> float64" where
  "series_sum xs = pairwise_sum fadd (Fin 0) (map nan_to_zero xs)"

section \<open>Tables\<close>

text \<open>
  A data frame is the list of its rows, in row order. The rows of the two survey tables
  (age bands, income bands) carry the columns \<open>YearStart\<close>, \<open>Stratification1\<close>,
  \<open>Data_Value\<close> and \<open>Sample_Size\<close>; the rows of the map table carry \<open>YearStart\<close>,
  \<open>LocationAbbr\<close>, \<open>LocationDesc\<close> and \<open>Data_Value\<close>. Records are extensible, so a row may
  carry further columns, which no builder reads. \<open>YearStart\<close> and the category or region
  code are present in every row.

  As read from the file, a \<open>Sample_Size\<close> cell is a number or a text that is not one.
  A column of integers is taken as the float64 column of the same numbers: the two behave
  alike as long as the sample sizes and their sums stay below \<open>2^53\<close>.
\<close>

datatype cell = Number float64 | Text string

record obs =
  YearStart :: int
  Data_Value :: float64

record strat = obs +
  Stratification1 :: string

record 'w survey_row = strat +
  Sample_Size :: 'w

record map_row = obs +
  LocationAbbr :: string
  LocationDesc :: string

text \<open>\<open>pd.to_numeric(..., errors="coerce")\<close>: what is not a number becomes NaN.\<close>

fun to_numeric :: "cell \<Rightarrow> float64" where
  "to_numeric (Number v) = v"
| "to_numeric (Text s) = NaN"

definition coerce_sample_size :: "cell survey_row list \<Rightarrow> float64 survey_row list" where
  "coerce_sample_size df =
     map (\<lambda>r. \<lparr>YearStart = YearStart r, Data_Value = Data_Value r,
                Stratification1 = Stratification1 r,
                Sample_Size = to_numeric (Sample_Size r)\<rparr>) df"

text \<open>\<open>df.dropna(subset=["Sample_Size", "Data_Value"])\<close>\<close>

definition dropna :: "float64 survey_row list \<Rightarrow> float64 survey_row list" where
  "dropna df = filter (\<lambda>r. Sample_Size r \<noteq> NaN \<and> Data_Value r \<noteq> NaN) df"

section \<open>The weighted aggregator\<close>

text \<open>
  \<^verbatim>\<open>
  def weighted_mean(group, value_col="Data_Value", weight_col="Sample_Size"):
      w = group[weight_col]
      x = group[value_col]
      return (x * w).sum() / w.sum()
  \<close>
  The two column arguments are the selectors of the columns; \<open>grp\<close> is the source's \<open>group\<close>.
\<close>

definition weighted_mean :: "'r list \<Rightarrow> ('r \<Rightarrow> float64) \<Rightarrow> ('r \<Rightarrow> float64) \<Rightarrow> float64" where
  "weighted_mean grp value_col weight_col =
     (let w = map weight_col grp;
          x = map value_col grp
      in fdiv (series_sum (map2 fmul x w)) (series_sum w))"

text \<open>
  \<open>df.groupby(["YearStart", "Stratification1"]).apply(f)\<close>: one result per key that occurs,
  the keys in ascending order, each group holding the rows of its key in table order. The
  results make a Series indexed by the keys. On a frame without rows there is no group and
  \<open>apply\<close> returns an empty frame with the columns of the input instead.
\<close>

definition group_key :: "'a strat_scheme \<Rightarrow> int \<times> string" where
  "group_key r = (YearStart r, Stratification1 r)"

definition group_keys :: "'a strat_scheme list \<Rightarrow> (int \<times> string) list" where
  "group_keys df = sort (remdups (map group_key df))"

definition get_group :: "int \<times> string \<Rightarrow> 'a strat_scheme list \<Rightarrow> 'a strat_scheme list" where
  "get_group k df = filter (\<lambda>r. group_key r = k) df"

datatype 'b applied = EmptyFrame | Results "((int \<times> string) \<times> 'b) list"

definition groupby_apply ::
  "('a strat_scheme list \<Rightarrow> 'b) \<Rightarrow> 'a strat_scheme list \<Rightarrow> 'b applied" where
  "groupby_apply f df =
     (if df = [] then EmptyFrame
      else Results (map (\<lambda>k. (k, f (get_group k df))) (group_keys df)))"

text \<open>
  \<open>.reset_index(name=...)\<close> turns the Series of results into a table of the keys and the
  results. A frame has no \<open>reset_index\<close> with the argument \<open>name\<close>: on the empty frame the
  call raises TypeError.
\<close>

datatype error = TypeError

fun reset_index_name :: "'b applied \<Rightarrow> error + ((int \<times> string) \<times> 'b) list" where
  "reset_index_name EmptyFrame = Inl TypeError"
| "reset_index_name (Results rows) = Inr rows"

section \<open>The age heatmap\<close>

record nat_row =
  year :: int
  age_group :: string
  obesity_rate :: float64

record heatmap_chart =
  chart_data :: "nat_row list"
  y_sort :: "string list"

definition age_order :: "string list" where
  "age_order = [''18 - 24'', ''25 - 34'', ''35 - 44'', ''45 - 54'', ''55 - 64'', ''65 or older'']"

definition df_nat :: "cell survey_row list \<Rightarrow> error + nat_row list" where
  "df_nat df_age =
     (let df = dropna (coerce_sample_size df_age)
      in case reset_index_name
                (groupby_apply (\<lambda>g. weighted_mean g Data_Value Sample_Size) df) of
           Inl e \<Rightarrow> Inl e
         | Inr rows \<Rightarrow>
             Inr (map (\<lambda>((y, c), v). \<lparr>year = y, age_group = c, obesity_rate = v\<rparr>) rows))"

definition make_age_heatmap :: "cell survey_row list \<Rightarrow> error + heatmap_chart" where
  "make_age_heatmap df_age =
     (case df_nat df_age of
        Inl e \<Rightarrow> Inl e
      | Inr d \<Rightarrow> Inr \<lparr>chart_data = d, y_sort = age_order\<rparr>)"

section \<open>The national trend and the map\<close>

text \<open>
  The builder returns a declarative chart; what is modelled is what that chart denotes:
  the marks a Vega-Lite renderer draws from it, as a function of the state of the hover
  selection and of the boundary data the map view looks its shapes up in.
\<close>

subsection \<open>The hover selection\<close>

text \<open>
  \<^verbatim>\<open>
  hover_year = alt.selection_single(
      fields=["YearStart"], nearest=True, on="mouseover", empty="none")
  \<close>
  The state of the selection is the selected value of \<open>YearStart\<close>, or nothing. A row
  passes a filter on the selection when its \<open>YearStart\<close> is the selected value; while
  nothing is selected, \<open>empty\<close> decides: \<open>"all"\<close> lets every row pass, \<open>"none"\<close> lets
  no row pass.
\<close>

datatype empty_mode = EmptyAll | EmptyNone

record selection_single =
  sel_fields :: "string list"
  nearest :: bool
  sel_on :: string
  sel_empty :: empty_mode

definition hover_year :: selection_single where
  "hover_year = \<lparr>sel_fields = [''YearStart''], nearest = True, sel_on = ''mouseover'',
                  sel_empty = EmptyNone\<rparr>"

definition selection_test :: "selection_single \<Rightarrow> int option \<Rightarrow> int \<Rightarrow> bool" where
  "selection_test sel st y =
     (case st of None \<Rightarrow> sel_empty sel = EmptyAll | Some y' \<Rightarrow> y = y')"

subsection \<open>The trend line\<close>

text \<open>
  \<^verbatim>\<open>
  base_trend = alt.Chart(df_map).encode(
      x=alt.X("YearStart:O", ...), y=alt.Y("mean(Data_Value):Q", ...))
  line = base_trend.mark_line(color="#c0392b")
  \<close>
  The aggregate \<open>mean\<close> of a group is the arithmetic mean of the valid (finite) values of
  the field; a group is the set of rows with one value of the unaggregated field
  \<open>YearStart\<close>, and the ordinal axis is in ascending order. The mean is the renderer's
  and is modelled as an exact number.
\<close>

definition vl_mean :: "float64 list \<Rightarrow> real option" where
  "vl_mean vs =
     (let valid = map real_of (filter is_Fin vs)
      in if valid = [] then None else Some (sum_list valid / real (length valid)))"

definition trend_line :: "'a obs_scheme list \<Rightarrow> (int \<times> real option) list" where
  "trend_line df_map =
     map (\<lambda>y. (y, vl_mean (map Data_Value (filter (\<lambda>r. YearStart r = y) df_map))))
       (sort (remdups (map YearStart df_map)))"

subsection \<open>The map\<close>

definition state_id_map :: "(string \<times> int) list" where
  "state_id_map =
     [(''AL'', 1), (''AK'', 2), (''AZ'', 4), (''AR'', 5), (''CA'', 6), (''CO'', 8),
      (''CT'', 9), (''DE'', 10), (''FL'', 12), (''GA'', 13), (''HI'', 15), (''ID'', 16),
      (''IL'', 17), (''IN'', 18), (''IA'', 19), (''KS'', 20), (''KY'', 21), (''LA'', 22),
      (''ME'', 23), (''MD'', 24), (''MA'', 25), (''MI'', 26), (''MN'', 27), (''MS'', 28),
      (''MO'', 29), (''MT'', 30), (''NE'', 31), (''NV'', 32), (''NH'', 33), (''NJ'', 34),
      (''NM'', 35), (''NY'', 36), (''NC'', 37), (''ND'', 38), (''OH'', 39), (''OK'', 40),
      (''OR'', 41), (''PA'', 42), (''RI'', 44), (''SC'', 45), (''SD'', 46), (''TN'', 47),
      (''TX'', 48), (''UT'', 49), (''VT'', 50), (''VA'', 51), (''WA'', 53), (''WV'', 54),
      (''WI'', 55), (''WY'', 56), (''DC'', 11)]"

text \<open>
  \<open>df_map["id"] = df_map["LocationAbbr"].map(state_id_map)\<close>: \<open>Series.map\<close> with a
  dictionary gives NaN, the missing value, for a key the dictionary does not have, and does
  not raise. The new column holds the identifier or nothing.
\<close>

record 'r id_row =
  datum :: 'r
  id_col :: "int option"

record ('r, 'g) geo_row = "'r id_row" +
  geometry :: "'g option"

definition add_id :: "'a map_row_scheme list \<Rightarrow> 'a map_row_scheme id_row list" where
  "add_id df_map = map (\<lambda>r. \<lparr>datum = r, id_col = map_of state_id_map (LocationAbbr r)\<rparr>) df_map"

text \<open>
  \<^verbatim>\<open>
  .transform_lookup(lookup="id",
                    from_=alt.LookupData(states, key="id", fields=["geometry", "type"]))
  \<close>
  Each row gets the shape of the feature of \<open>states\<close> whose key is the row's \<open>id\<close>; a row
  whose \<open>id\<close> is missing or is no key of \<open>states\<close> gets a null shape and stays in the data.
  \<open>states\<close>, the boundary data, is fetched by the renderer; it is a parameter here, a map
  from feature identifiers to shapes.
\<close>

definition transform_lookup ::
  "(int \<Rightarrow> 'g option) \<Rightarrow> 'r id_row list \<Rightarrow> ('r, 'g) geo_row list" where
  "transform_lookup states rows =
     map (\<lambda>r. \<lparr>datum = datum r, id_col = id_col r,
                geometry = (case id_col r of None \<Rightarrow> None | Some i \<Rightarrow> states i)\<rparr>) rows"

definition transform_filter ::
  "selection_single \<Rightarrow> int option \<Rightarrow> ('r \<Rightarrow> int) \<Rightarrow> 'r list \<Rightarrow> 'r list" where
  "transform_filter sel st field rows = filter (\<lambda>r. selection_test sel st (field r)) rows"

text \<open>
  \<^verbatim>\<open>
  alt.Chart(df_map).mark_geoshape(...).encode(color=alt.Color("Data_Value:Q", ...), ...)
  \<close>
  \<open>mark_geoshape\<close> draws one shape for each row that has one. The colour is a quantitative
  channel: a row whose \<open>Data_Value\<close> is not a finite number is an invalid datum of a
  continuous scale, and the renderer leaves it out.
\<close>

definition mark_geoshape ::
  "('a obs_scheme, 'g) geo_row list \<Rightarrow> ('a obs_scheme, 'g) geo_row list" where
  "mark_geoshape rows =
     filter (\<lambda>r. geometry r \<noteq> None \<and> is_Fin (Data_Value (datum r))) rows"

definition bottom_map ::
  "(int \<Rightarrow> 'g option) \<Rightarrow> int option \<Rightarrow> 'a map_row_scheme list
     \<Rightarrow> ('a map_row_scheme, 'g) geo_row list" where
  "bottom_map states st df_map_raw =
     mark_geoshape
       (transform_filter hover_year st (\<lambda>r. YearStart (datum r))
          (transform_lookup states (add_id df_map_raw)))"

definition make_trend_and_map ::
  "(int \<Rightarrow> 'g option) \<Rightarrow> int option \<Rightarrow> 'a map_row_scheme list
     \<Rightarrow> (int \<times> real option) list \<times> ('a map_row_scheme, 'g) geo_row list" where
  "make_trend_and_map states st df_map_raw =
     (trend_line df_map_raw, bottom_map states st df_map_raw)"

definition rendered_regions :: "('a map_row_scheme, 'g) geo_row list \<Rightarrow> string set" where
  "rendered_regions marks = (\<lambda>r. LocationAbbr (datum r)) ` set marks"

section \<open>The income trend and the growth since 2011\<close>

record merged_row = strat +
  Base_2011 :: float64

record growth_row = merged_row +
  Growth :: float64

definition aggregate_income :: "cell survey_row list \<Rightarrow> error + strat list" where
  "aggregate_income df_income_raw =
     (let df = dropna (coerce_sample_size df_income_raw)
      in case reset_index_name
                (groupby_apply (\<lambda>g. weighted_mean g Data_Value Sample_Size) df) of
           Inl e \<Rightarrow> Inl e
         | Inr rows \<Rightarrow>
             Inr (map (\<lambda>((y, c), v).
                    \<lparr>YearStart = y, Data_Value = v, Stratification1 = c\<rparr>) rows))"

definition base_2011 :: "strat list \<Rightarrow> (string \<times> float64) list" where
  "base_2011 df_inc_agg =
     map (\<lambda>r. (Stratification1 r, Data_Value r)) (filter (\<lambda>r. YearStart r = 2011) df_inc_agg)"

text \<open>
  \<open>pd.merge(left, right, on="Stratification1", how="left")\<close>: the rows of \<open>left\<close> in their
  order, each once for every row of \<open>right\<close> with its key, or once with the columns of
  \<open>right\<close> missing when \<open>right\<close> has no such row.
\<close>

definition merge_left :: "strat list \<Rightarrow> (string \<times> float64) list \<Rightarrow> merged_row list" where
  "merge_left left right =
     concat (map (\<lambda>l.
       (case filter (\<lambda>(c, b). c = Stratification1 l) right of
          [] \<Rightarrow> [\<lparr>YearStart = YearStart l, Data_Value = Data_Value l,
                  Stratification1 = Stratification1 l, Base_2011 = NaN\<rparr>]
        | ms \<Rightarrow> map (\<lambda>(c, b). \<lparr>YearStart = YearStart l, Data_Value = Data_Value l,
                  Stratification1 = Stratification1 l, Base_2011 = b\<rparr>) ms)) left)"

definition add_growth :: "merged_row list \<Rightarrow> growth_row list" where
  "add_growth df =
     map (\<lambda>r. \<lparr>YearStart = YearStart r, Data_Value = Data_Value r,
                Stratification1 = Stratification1 r, Base_2011 = Base_2011 r,
                Growth = fsub (Data_Value r) (Base_2011 r)\<rparr>) df"

text \<open>The baseline a row of category \<open>c\<close> gets from a right table in which \<open>c\<close> occurs at most once.\<close>

definition baseline_of :: "(string \<times> float64) list \<Rightarrow> string \<Rightarrow> float64" where
  "baseline_of right c = (case map_of right c of None \<Rightarrow> NaN | Some b \<Rightarrow> b)"

definition df_inc_agg :: "cell survey_row list \<Rightarrow> error + growth_row list" where
  "df_inc_agg df_income_raw =
     (case aggregate_income df_income_raw of
        Inl e \<Rightarrow> Inl e
      | Inr agg \<Rightarrow> Inr (add_growth (merge_left agg (base_2011 agg))))"

definition income_order :: "string list" where
  "income_order =
     [''Less than $15,000'', ''$15,000 - $24,999'', ''$25,000 - $34,999'',
      ''$35,000 - $49,999'', ''$50,000 - $74,999'', ''$75,000 or greater'']"

definition hover_inc :: selection_single where
  "hover_inc = \<lparr>sel_fields = [''YearStart''], nearest = True, sel_on = ''mouseover'',
                 sel_empty = EmptyNone\<rparr>"

text \<open>The two views: the lines of all years, and the growth bars of the selected year.\<close>

definition make_income_trend ::
  "int option \<Rightarrow> cell survey_row list \<Rightarrow> error + growth_row list \<times> growth_row list" where
  "make_income_trend st df_income_raw =
     (case df_inc_agg df_income_raw of
        Inl e \<Rightarrow> Inl e
      | Inr df \<Rightarrow> Inr (df, transform_filter hover_inc st YearStart df))"

section \<open>Runs of the aggregator without rounding\<close>

text \<open>
  \<open>representable q\<close>: the number \<open>q\<close> is a binary64 number, so that rounding returns it
  unchanged. A run of \<open>weighted_mean\<close> on a group is exact when every product and every
  addition of the two sums is exact; it does not round at all when the quotient is
  representable too.
\<close>

definition representable :: "real \<Rightarrow> bool" where
  "representable q \<longleftrightarrow> round64 q = Fin q"

text \<open>
  The exact addition of two numbers, when their sum is representable; \<open>exact_sum\<close> adds a
  list in the order of \<open>series_sum\<close> and has a result when every addition on the way is
  exact.
\<close>

definition exact_add :: "real option \<Rightarrow> real option \<Rightarrow> real option" where
  "exact_add a b =
     (case (a, b) of
        (Some x, Some y) \<Rightarrow> if representable (x + y) then Some (x + y) else None
      | _ \<Rightarrow> None)"

definition exact_sum :: "real list \<Rightarrow> real option" where
  "exact_sum xs = pairwise_sum exact_add (Some 0) (map Some xs)"

definition all_finite :: "'r list \<Rightarrow> ('r \<Rightarrow> float64) \<Rightarrow> ('r \<Rightarrow> float64) \<Rightarrow> bool" where
  "all_finite grp value_col weight_col =
     list_all (\<lambda>r. is_Fin (value_col r) \<and> is_Fin (weight_col r)) grp"

definition products :: "'r list \<Rightarrow> ('r \<Rightarrow> float64) \<Rightarrow> ('r \<Rightarrow> float64) \<Rightarrow> real list" where
  "products grp value_col weight_col =
     map (\<lambda>r. real_of (value_col r) * real_of (weight_col r)) grp"

definition weights :: "'r list \<Rightarrow> ('r \<Rightarrow> float64) \<Rightarrow> real list" where
  "weights grp weight_col = map (\<lambda>r. real_of (weight_col r)) grp"

definition exact_sums_of :: "'r list \<Rightarrow> ('r \<Rightarrow> float64) \<Rightarrow> ('r \<Rightarrow> float64) \<Rightarrow> bool" where
  "exact_sums_of grp value_col weight_col =
     (let p = products grp value_col weight_col; w = weights grp weight_col
      in list_all representable p \<and> exact_sum p \<noteq> None \<and> exact_sum w \<noteq> None)"

definition no_rounding :: "'r list \<Rightarrow> ('r \<Rightarrow> float64) \<Rightarrow> ('r \<Rightarrow> float64) \<Rightarrow> bool" where
  "no_rounding grp value_col weight_col =
     (exact_sums_of grp value_col weight_col \<and>
      representable (sum_list (products grp value_col weight_col) /
                     sum_list (weights grp weight_col)))"

text \<open>The group with every weight multiplied by \<open>c\<close>.\<close>

definition scale_weights :: "float64 \<Rightarrow> float64 survey_row list \<Rightarrow> float64 survey_row list" where
  "scale_weights c grp = map (\<lambda>r. r\<lparr>Sample_Size := fmul c (Sample_Size r)\<rparr>) grp"

section \<open>Example tables\<close>

definition survey :: "int \<Rightarrow> string \<Rightarrow> float64 \<Rightarrow> 'w \<Rightarrow> 'w survey_row" where
  "survey y c v n = \<lparr>YearStart = y, Data_Value = v, Stratification1 = c, Sample_Size = n\<rparr>"

text \<open>Scenario 1 of the specification, with two more rows: one of another year, one invalid.\<close>

definition table_B :: "cell survey_row list" where
  "table_B =
     [survey 2015 ''18 - 24'' (Fin 28) (Number (Fin 100)),
      survey 2016 ''18 - 24'' (Fin 30) (Number (Fin 250)),
      survey 2015 ''18 - 24'' (Fin 29) (Text ''~''),
      survey 2015 ''18 - 24'' (Fin 32) (Number (Fin 300))]"

text \<open>The float64 numbers written 28.3 and 31.7.\<close>

definition f28_3 :: real where
  "f28_3 = 7965741840911565 / 281474976710656"

definition f31_7 :: real where
  "f31_7 = 8922756761727795 / 281474976710656"

text \<open>Groups of rows of one key, after coercion.\<close>

definition exact_group :: "float64 survey_row list" where
  "exact_group =
     [survey 2015 ''18 - 24'' (Fin 28) (Fin 100), survey 2015 ''18 - 24'' (Fin 32) (Fin 300)]"

definition const_group :: "float64 survey_row list" where
  "const_group =
     [survey 2015 ''18 - 24'' (Fin 28) (Fin 100), survey 2015 ''18 - 24'' (Fin 28) (Fin 300)]"

definition zero_weight_group :: "float64 survey_row list" where
  "zero_weight_group = [survey 2015 ''18 - 24'' (Fin 28) (Fin 0)]"

definition same_value_group :: "float64 survey_row list" where
  "same_value_group =
     [survey 2015 ''18 - 24'' (Fin f28_3) (Fin 1), survey 2015 ''18 - 24'' (Fin f28_3) (Fin 12)]"

definition low_group :: "float64 survey_row list" where
  "low_group =
     [survey 2015 ''18 - 24'' (Fin f28_3) (Fin 1), survey 2015 ''18 - 24'' (Fin f28_3) (Fin 23)]"

definition mixed_group :: "float64 survey_row list" where
  "mixed_group =
     [survey 2015 ''18 - 24'' (Fin f28_3) (Fin 1), survey 2015 ''18 - 24'' (Fin f31_7) (Fin 12)]"

definition rounded_group :: "float64 survey_row list" where
  "rounded_group =
     [survey 2015 ''18 - 24'' (Fin f28_3) (Fin 3), survey 2015 ''18 - 24'' (Fin f31_7) (Fin 36)]"

definition thirds_group :: "float64 survey_row list" where
  "thirds_group =
     [survey 2015 ''18 - 24'' (Fin 1) (Fin 1), survey 2015 ''18 - 24'' (Fin 2) (Fin 2)]"

text \<open>An age table with a band that is not one of the six canonical bands.\<close>

definition table_unknown_band :: "cell survey_row list" where
  "table_unknown_band =
     [survey 2015 ''18 - 24'' (Fin 28) (Number (Fin 100)),
      survey 2015 ''Under 18'' (Fin 20) (Number (Fin 50))]"

text \<open>
  A map table with a region code that the mapping does not have ("ZZ"), and one that the
  boundary data has a shape for but the mapping does not have ("PR").
\<close>

definition region :: "int \<Rightarrow> string \<Rightarrow> string \<Rightarrow> float64 \<Rightarrow> map_row" where
  "region y a d v = \<lparr>YearStart = y, Data_Value = v, LocationAbbr = a, LocationDesc = d\<rparr>"

definition table_A :: "map_row list" where
  "table_A =
     [region 2015 ''AL'' ''Alabama'' (Fin 35),
      region 2015 ''ZZ'' ''Unknown'' (Fin 30),
      region 2015 ''TX'' ''Texas'' (Fin 31),
      region 2016 ''AL'' ''Alabama'' (Fin 36),
      region 2016 ''PR'' ''Puerto Rico'' (Fin 30)]"

text \<open>Boundary data: a shape (here its number) for every state, the District and Puerto Rico.\<close>

definition example_states :: "int \<Rightarrow> int option" where
  "example_states i = (if i \<in> snd ` set state_id_map \<or> i = 72 then Some i else None)"

text \<open>
  Scenario 2 of the specification (30.0 in 2011, 33.5 in 2015), and a band with no row of
  2011.
\<close>

definition table_C :: "cell survey_row list" where
  "table_C =
     [survey 2011 ''Less than $15,000'' (Fin 30) (Number (Fin 100)),
      survey 2015 ''Less than $15,000'' (Fin (67 / 2)) (Number (Fin 200)),
      survey 2015 ''$75,000 or greater'' (Fin 25) (Number (Fin 400))]"

text \<open>The map table with a further column, the sample sizes.\<close>

definition table_A_sized :: "float64 map_row_scheme list" where
  "table_A_sized =
     map (\<lambda>(r, n). map_row.extend r n)
       (zip table_A [Fin 4000, Fin 10, Fin 9000, Fin 4100, Fin 2000])"

text \<open>The aggregated rows and the growth table of \<open>table_C\<close>.\<close>

definition table_C_aggregated :: "strat list" where
  "table_C_aggregated =
     [\<lparr>YearStart = 2011, Data_Value = Fin 30, Stratification1 = ''Less than $15,000''\<rparr>,
      \<lparr>YearStart = 2015, Data_Value = Fin 25, Stratification1 = ''$75,000 or greater''\<rparr>,
      \<lparr>YearStart = 2015, Data_Value = Fin (67 / 2),
        Stratification1 = ''Less than $15,000''\<rparr>]"

definition table_C_growth :: "growth_row list" where
  "table_C_growth =
     [\<lparr>YearStart = 2011, Data_Value = Fin 30, Stratification1 = ''Less than $15,000'',
        Base_2011 = Fin 30, Growth = Fin 0\<rparr>,
      \<lparr>YearStart = 2015, Data_Value = Fin 25, Stratification1 = ''$75,000 or greater'',
        Base_2011 = NaN, Growth = NaN\<rparr>,
      \<lparr>YearStart = 2015, Data_Value = Fin (67 / 2), Stratification1 = ''Less than $15,000'',
        Base_2011 = Fin 30, Growth = Fin (7 / 2)\<rparr>]"

text \<open>An age table without a valid row.\<close>

definition table_invalid :: "cell survey_row list" where
  "table_invalid =
     [survey 2015 ''18 - 24'' (Fin 28) (Text ''~''), survey 2015 ''25 - 34'' NaN (Number (Fin 10))]"

section \<open>Evaluation of the rounding\<close>

lemmas round64_eval = round64_def round_pos_def scale_up.simps scale_down.simps
  round_half_even_def Let_def pow2_def

lemmas group_defs = survey_def exact_group_def const_group_def zero_weight_group_def
  same_value_group_def low_group_def mixed_group_def rounded_group_def thirds_group_def

lemmas wm_eval = weighted_mean_def series_sum_def nan_to_zero_def pairwise_sum.simps

lemmas exact_eval = all_finite_def no_rounding_def exact_sums_of_def products_def weights_def
  representable_def exact_sum_def exact_add_def pairwise_sum.simps

lemmas table_defs = table_B_def table_C_def table_A_def survey_def region_def

lemmas frame_eval = dropna_def coerce_sample_size_def groupby_apply_def group_keys_def
  group_key_def get_group_def

lemma round64_zero: "round64 0 = Fin 0"
  by (simp add: round64_def)

lemma parse_28_3: "round64 (283 / 10) = Fin f28_3"
  by (simp add: round64_eval f28_3_def)

lemma parse_31_7: "round64 (317 / 10) = Fin f31_7"
  by (simp add: round64_eval f31_7_def)

lemma example_numbers_representable: "representable f28_3" "representable f31_7"
  by (simp_all add: representable_def round64_eval f28_3_def f31_7_def)

section \<open>Two runs of the summation, related step by step\<close>

lemma foldl_related:
  assumes step: "\<And>a a' b b'. R a a' \<Longrightarrow> R b b' \<Longrightarrow> R (f a b) (g a' b')"
  shows "list_all2 R xs ys \<Longrightarrow> R z z' \<Longrightarrow> R (foldl f z xs) (foldl g z' ys)"
proof (induction xs ys arbitrary: z z' rule: list_all2_induct)
  case Nil
  then show ?case by simp
next
  case (Cons x xs y ys)
  from Cons.prems Cons.hyps(1) have "R (f z x) (g z' y)" by (intro step)
  with Cons.IH show ?case by simp
qed

lemma map2_related:
  assumes step: "\<And>a a' b b'. R a a' \<Longrightarrow> R b b' \<Longrightarrow> R (f a b) (g a' b')"
    and "list_all2 R r r'" and "list_all2 R c c'"
  shows "list_all2 R (map2 f r c) (map2 g r' c')"
proof -
  from assms(2,3) have len: "length r = length r'" "length c = length c'"
    by (simp_all add: list_all2_lengthD)
  show ?thesis
  proof (rule list_all2_all_nthI)
    show "length (map2 f r c) = length (map2 g r' c')" using len by simp
  next
    fix n assume "n < length (map2 f r c)"
    then have n: "n < length r" "n < length c" by simp_all
    with assms(2,3) have "R (r ! n) (r' ! n)" "R (c ! n) (c' ! n)"
      by (simp_all add: list_all2_nthD)
    then have "R (f (r ! n) (c ! n)) (g (r' ! n) (c' ! n))" by (rule step)
    with n len show "R (map2 f r c ! n) (map2 g r' c' ! n)" by simp
  qed
qed

lemma add_blocks_related:
  assumes "\<And>a a' b b'. R a a' \<Longrightarrow> R b b' \<Longrightarrow> R (f a b) (g a' b')"
    and "list_all2 R r r'" and "list_all2 R a a'"
  shows "list_all2 R (fst (add_blocks f r a)) (fst (add_blocks g r' a')) \<and>
         list_all2 R (snd (add_blocks f r a)) (snd (add_blocks g r' a'))"
  using assms
proof (induction f r a arbitrary: r' a' rule: add_blocks.induct)
  case (1 add r a)
  note step = "1.prems"(1) and rel_r = "1.prems"(2) and rel_a = "1.prems"(3)
  from rel_a have len: "length a = length a'" by (rule list_all2_lengthD)
  show ?case
  proof (cases "8 \<le> length a")
    case True
    have "list_all2 R (take 8 a) (take 8 a')"
      using rel_a by (rule list_all2_takeI)
    with step rel_r have m: "list_all2 R (map2 add r (take 8 a)) (map2 g r' (take 8 a'))"
      by (rule map2_related)
    have d: "list_all2 R (drop 8 a) (drop 8 a')"
      using rel_a by (rule list_all2_dropI)
    have "list_all2 R (fst (add_blocks add (map2 add r (take 8 a)) (drop 8 a)))
           (fst (add_blocks g (map2 g r' (take 8 a')) (drop 8 a'))) \<and>
         list_all2 R (snd (add_blocks add (map2 add r (take 8 a)) (drop 8 a)))
           (snd (add_blocks g (map2 g r' (take 8 a')) (drop 8 a')))"
      using True step m d by (rule "1.IH")
    with True len show ?thesis
      by (simp add: add_blocks.simps [of add r a] add_blocks.simps [of g r' a'])
  next
    case False
    with len rel_r rel_a show ?thesis
      by (simp add: add_blocks.simps [of add r a] add_blocks.simps [of g r' a'])
  qed
qed

lemma length_add_blocks:
  "length r = 8 \<Longrightarrow> length (fst (add_blocks f r a)) = 8"
proof (induction f r a rule: add_blocks.induct)
  case (1 add r a)
  show ?case
  proof (cases "8 \<le> length a")
    case True
    with "1.prems" have "length (map2 add r (take 8 a)) = 8" by simp
    with True "1.IH" show ?thesis by (simp add: add_blocks.simps [of add r a])
  next
    case False
    with "1.prems" show ?thesis by (simp add: add_blocks.simps [of add r a])
  qed
qed

lemma sum_tree8_related:
  assumes step: "\<And>a a' b b'. R a a' \<Longrightarrow> R b b' \<Longrightarrow> R (f a b) (g a' b')"
    and "list_all2 R r r'" and "length r = 8"
  shows "R (sum_tree8 f r) (sum_tree8 g r')"
proof -
  have nth: "R (r ! i) (r' ! i)" if "i < 8" for i
    using assms(2,3) that by (simp add: list_all2_nthD)
  show ?thesis unfolding sum_tree8_def
    by (intro step nth) simp_all
qed

lemma pairwise_sum_related:
  assumes "\<And>a a' b b'. R a a' \<Longrightarrow> R b b' \<Longrightarrow> R (f a b) (g a' b')"
    and "R z z'" and "list_all2 R xs ys"
  shows "R (pairwise_sum f z xs) (pairwise_sum g z' ys)"
  using assms
proof (induction f z xs arbitrary: ys rule: pairwise_sum.induct)
  case (1 add zero a)
  note step = "1.prems"(1) and zero = "1.prems"(2) and rel = "1.prems"(3)
  from rel have len: "length a = length ys" by (rule list_all2_lengthD)
  consider (small) "length a < 8" | (block) "8 \<le> length a" "length a \<le> 128"
    | (split) "128 < length a" by linarith
  then show ?case
  proof cases
    case small
    have "R (foldl add zero a) (foldl g z' ys)"
      using step rel zero by (rule foldl_related)
    with small len show ?thesis
      by (simp add: pairwise_sum.simps [of add zero a] pairwise_sum.simps [of g z' ys])
  next
    case block
    let ?b = "add_blocks add (take 8 a) (drop 8 a)"
    let ?b' = "add_blocks g (take 8 ys) (drop 8 ys)"
    have t: "list_all2 R (take 8 a) (take 8 ys)" using rel by (rule list_all2_takeI)
    have d: "list_all2 R (drop 8 a) (drop 8 ys)" using rel by (rule list_all2_dropI)
    from step t d
    have b: "list_all2 R (fst ?b) (fst ?b') \<and> list_all2 R (snd ?b) (snd ?b')"
      by (rule add_blocks_related)
    have l: "length (fst ?b) = 8" using block by (intro length_add_blocks) simp
    from b have "list_all2 R (fst ?b) (fst ?b')" ..
    with step have "R (sum_tree8 add (fst ?b)) (sum_tree8 g (fst ?b'))"
      using l by (rule sum_tree8_related)
    moreover from b have "list_all2 R (snd ?b) (snd ?b')" ..
    ultimately have "R (foldl add (sum_tree8 add (fst ?b)) (snd ?b))
                   (foldl g (sum_tree8 g (fst ?b')) (snd ?b'))"
      using step by (intro foldl_related [of R add g])
    with block len show ?thesis
      by (simp add: pairwise_sum.simps [of add zero a] pairwise_sum.simps [of g z' ys]
          Let_def case_prod_beta)
  next
    case split
    let ?n2 = "length a div 2 - (length a div 2) mod 8"
    have t: "list_all2 R (take ?n2 a) (take ?n2 ys)" using rel by (rule list_all2_takeI)
    have d: "list_all2 R (drop ?n2 a) (drop ?n2 ys)" using rel by (rule list_all2_dropI)
    have c: "\<not> length a < 8" "\<not> length a \<le> 128" using split by simp_all
    have "R (pairwise_sum add zero (take ?n2 a)) (pairwise_sum g z' (take ?n2 ys))"
      using "1.IH"(1) [OF refl c refl step zero t] .
    moreover have "R (pairwise_sum add zero (drop ?n2 a)) (pairwise_sum g z' (drop ?n2 ys))"
      using "1.IH"(2) [OF refl c refl step zero d] .
    ultimately have "R (add (pairwise_sum add zero (take ?n2 a)) (pairwise_sum add zero (drop ?n2 a)))
        (g (pairwise_sum g z' (take ?n2 ys)) (pairwise_sum g z' (drop ?n2 ys)))"
      by (rule step)
    with split len show ?thesis
      by (simp add: pairwise_sum.simps [of add zero a] pairwise_sum.simps [of g z' ys] Let_def)
  qed
qed

section \<open>The summation over the reals\<close>

lemma foldl_plus: "foldl (+) z xs = z + sum_list (xs :: real list)"
  by (induction xs arbitrary: z) (simp_all add: add.assoc)

lemma sum_list_map2_plus:
  "length r = length c \<Longrightarrow> sum_list (map2 (+) r c) = sum_list r + sum_list (c :: real list)"
  by (induction r c rule: list_induct2) simp_all

lemma add_blocks_plus:
  "length r = 8 \<Longrightarrow>
   sum_list (fst (add_blocks (+) r a)) + sum_list (snd (add_blocks (+) r a)) =
   sum_list r + sum_list (a :: real list)"
proof (induction "(+) :: real \<Rightarrow> real \<Rightarrow> real" r a rule: add_blocks.induct)
  case (1 r a)
  show ?case
  proof (cases "8 \<le> length a")
    case True
    with "1.prems" have l: "length r = length (take 8 a)" by simp
    then have "length (map2 (+) r (take 8 a)) = 8" using "1.prems" by simp
    with True "1.hyps" have "sum_list (fst (add_blocks (+) (map2 (+) r (take 8 a)) (drop 8 a))) +
        sum_list (snd (add_blocks (+) (map2 (+) r (take 8 a)) (drop 8 a))) =
        sum_list (map2 (+) r (take 8 a)) + sum_list (drop 8 a)"
      by simp
    also have "\<dots> = sum_list r + (sum_list (take 8 a) + sum_list (drop 8 a))"
      by (simp add: sum_list_map2_plus [OF l])
    also have "sum_list (take 8 a) + sum_list (drop 8 a) = sum_list a"
      by (metis append_take_drop_id sum_list_append)
    finally show ?thesis using True by (simp add: add_blocks.simps [of "(+)" r a])
  next
    case False
    then show ?thesis by (simp add: add_blocks.simps [of "(+)" r a])
  qed
qed

lemma sum_tree8_plus:
  assumes "length r = 8"
  shows "sum_tree8 (+) r = sum_list (r :: real list)"
proof -
  from assms obtain r0 r1 r2 r3 r4 r5 r6 r7 where "r = [r0, r1, r2, r3, r4, r5, r6, r7]"
    by (auto simp: length_Suc_conv eval_nat_numeral)
  then show ?thesis by (simp add: sum_tree8_def)
qed

lemma pairwise_sum_plus: "pairwise_sum (+) 0 xs = sum_list (xs :: real list)"
proof (induction "(+) :: real \<Rightarrow> real \<Rightarrow> real" "0 :: real" xs rule: pairwise_sum.induct)
  case (1 a)
  consider (small) "length a < 8" | (block) "8 \<le> length a" "length a \<le> 128"
    | (split) "128 < length a" by linarith
  then show ?case
  proof cases
    case small
    then show ?thesis by (simp add: pairwise_sum.simps [of "(+)" 0 a] foldl_plus)
  next
    case block
    let ?b = "add_blocks (+) (take 8 a) (drop 8 a)"
    have l: "length (take 8 a) = 8" using block by simp
    have "sum_tree8 (+) (fst ?b) + sum_list (snd ?b) = sum_list (fst ?b) + sum_list (snd ?b)"
      using length_add_blocks [OF l] by (simp add: sum_tree8_plus)
    also have "\<dots> = sum_list (take 8 a) + sum_list (drop 8 a)"
      using l by (rule add_blocks_plus)
    also have "\<dots> = sum_list a"
      by (metis append_take_drop_id sum_list_append)
    finally show ?thesis using block
      by (simp add: pairwise_sum.simps [of "(+)" 0 a] Let_def case_prod_beta foldl_plus)
  next
    case split
    let ?n2 = "length a div 2 - (length a div 2) mod 8"
    have "pairwise_sum (+) 0 (take ?n2 a) + pairwise_sum (+) 0 (drop ?n2 a) =
          sum_list (take ?n2 a) + sum_list (drop ?n2 a)"
      using split "1.hyps"(1,2) by simp
    also have "\<dots> = sum_list a"
      by (metis append_take_drop_id sum_list_append)
    finally show ?thesis using split
      by (simp add: pairwise_sum.simps [of "(+)" 0 a] Let_def)
  qed
qed


lemma pairwise_sum_small:
  "length a < 8 \<Longrightarrow> pairwise_sum add zero a = foldl add zero a"
  by (simp add: pairwise_sum.simps [of add zero a])

section \<open>The aggregator when nothing is rounded\<close>

lemma fadd_exact_add:
  assumes "\<forall>s. a' = Some s \<longrightarrow> a = Fin s" and "\<forall>s. b' = Some s \<longrightarrow> b = Fin s"
  shows "\<forall>s. exact_add a' b' = Some s \<longrightarrow> fadd a b = Fin s"
  using assms
  by (cases a'; cases b') (auto simp: exact_add_def representable_def split: if_splits)

lemma exact_add_plus:
  assumes "\<forall>s. a' = Some s \<longrightarrow> s = a" and "\<forall>s. b' = Some s \<longrightarrow> s = b"
  shows "\<forall>s. exact_add a' b' = Some s \<longrightarrow> s = a + b"
  using assms
  by (cases a'; cases b') (auto simp: exact_add_def split: if_splits)

lemma series_sum_exact:
  assumes "exact_sum as = Some s"
  shows "series_sum (map Fin as) = Fin s"
proof -
  have "\<forall>s. pairwise_sum exact_add (Some 0) (map Some as) = Some s \<longrightarrow>
            pairwise_sum fadd (Fin 0) (map Fin as) = Fin s"
  proof (rule pairwise_sum_related
      [where R = "\<lambda>v v'. \<forall>s. v' = Some s \<longrightarrow> v = Fin s" and f = fadd and g = exact_add])
    show "\<forall>s. exact_add a' b' = Some s \<longrightarrow> fadd a b = Fin s"
      if "\<forall>s. a' = Some s \<longrightarrow> a = Fin s" and "\<forall>s. b' = Some s \<longrightarrow> b = Fin s" for a a' b b'
      using that by (rule fadd_exact_add)
    show "\<forall>s. Some 0 = Some s \<longrightarrow> Fin 0 = Fin s" by simp
    show "list_all2 (\<lambda>v v'. \<forall>s. v' = Some s \<longrightarrow> v = Fin s) (map Fin as) (map Some as)"
      by (simp add: list_all2_map1 list_all2_map2 list_all2_same)
  qed
  with assms have e: "pairwise_sum fadd (Fin 0) (map Fin as) = Fin s"
    by (simp add: exact_sum_def)
  have m: "map nan_to_zero (map Fin as) = map Fin as"
    by (induction as) (simp_all add: nan_to_zero_def)
  show ?thesis unfolding series_sum_def m by (rule e)
qed

lemma exact_sum_value:
  assumes "exact_sum as = Some s"
  shows "s = sum_list as"
proof -
  have "\<forall>s. pairwise_sum exact_add (Some 0) (map Some as) = Some s \<longrightarrow>
            s = pairwise_sum (+) 0 as"
  proof (rule pairwise_sum_related
      [where R = "\<lambda>v' v. \<forall>s. v' = Some s \<longrightarrow> s = v" and f = exact_add and g = "(+)"])
    show "\<forall>s. exact_add a b = Some s \<longrightarrow> s = a' + b'"
      if "\<forall>s. a = Some s \<longrightarrow> s = a'" and "\<forall>s. b = Some s \<longrightarrow> s = b'" for a a' b b'
      using that by (rule exact_add_plus)
    show "\<forall>s. Some 0 = Some s \<longrightarrow> s = (0::real)" by simp
    show "list_all2 (\<lambda>v' v. \<forall>s. v' = Some s \<longrightarrow> s = v) (map Some as) as"
      by (simp add: list_all2_map1 list_all2_same)
  qed
  with assms show ?thesis by (simp add: exact_sum_def pairwise_sum_plus)
qed

lemma weight_column_Fin:
  "all_finite grp vc wc \<Longrightarrow> map wc grp = map Fin (weights grp wc)"
  by (induction grp) (simp_all add: all_finite_def weights_def)

lemma product_column_Fin:
  "all_finite grp vc wc \<Longrightarrow> list_all representable (products grp vc wc) \<Longrightarrow>
   map2 fmul (map vc grp) (map wc grp) = map Fin (products grp vc wc)"
proof (induction grp)
  case Nil
  then show ?case by (simp add: products_def)
next
  case (Cons r grp)
  from Cons.prems obtain x w where xw: "vc r = Fin x" "wc r = Fin w"
    by (auto simp: all_finite_def is_Fin_def)
  with Cons show ?case
    by (simp add: all_finite_def products_def representable_def)
qed

lemma weighted_mean_exact_sums:
  assumes "all_finite grp vc wc" and "exact_sums_of grp vc wc"
  shows "weighted_mean grp vc wc =
           fdiv (Fin (sum_list (products grp vc wc))) (Fin (sum_list (weights grp wc)))"
proof -
  from assms(2) have p: "list_all representable (products grp vc wc)"
    and "exact_sum (products grp vc wc) \<noteq> None"
    and "exact_sum (weights grp wc) \<noteq> None"
    by (simp_all add: exact_sums_of_def Let_def)
  then obtain sp sw where sp: "exact_sum (products grp vc wc) = Some sp"
    and sw: "exact_sum (weights grp wc) = Some sw"
    by auto
  have "series_sum (map2 fmul (map vc grp) (map wc grp)) = Fin (sum_list (products grp vc wc))"
    using product_column_Fin [OF assms(1) p] series_sum_exact [OF sp] exact_sum_value [OF sp]
    by simp
  moreover have "series_sum (map wc grp) = Fin (sum_list (weights grp wc))"
    using weight_column_Fin [OF assms(1)] series_sum_exact [OF sw] exact_sum_value [OF sw]
    by simp
  ultimately show ?thesis
    by (simp add: weighted_mean_def Let_def)
qed

lemma weighted_mean_exact:
  assumes "all_finite grp vc wc" and "no_rounding grp vc wc"
    and "sum_list (weights grp wc) \<noteq> 0"
  shows "weighted_mean grp vc wc =
           Fin (sum_list (products grp vc wc) / sum_list (weights grp wc))"
  using assms weighted_mean_exact_sums [of grp vc wc]
  by (simp add: no_rounding_def representable_def)

lemma sum_products_bounds:
  assumes "\<forall>r\<in>set grp. 0 \<le> real_of (wc r)"
    and "\<forall>r\<in>set grp. lo \<le> real_of (vc r) \<and> real_of (vc r) \<le> hi"
  shows "lo * sum_list (weights grp wc) \<le> sum_list (products grp vc wc) \<and>
         sum_list (products grp vc wc) \<le> hi * sum_list (weights grp wc)"
  using assms
proof (induction grp)
  case Nil
  then show ?case by (simp add: products_def weights_def)
next
  case (Cons r grp)
  have w: "0 \<le> real_of (wc r)" and x: "lo \<le> real_of (vc r)" "real_of (vc r) \<le> hi"
    using Cons.prems by simp_all
  have "lo * real_of (wc r) \<le> real_of (vc r) * real_of (wc r)"
    and "real_of (vc r) * real_of (wc r) \<le> hi * real_of (wc r)"
    using w x by (simp_all add: mult_right_mono)
  moreover have "lo * sum_list (weights grp wc) \<le> sum_list (products grp vc wc) \<and>
         sum_list (products grp vc wc) \<le> hi * sum_list (weights grp wc)"
    using Cons by simp
  ultimately show ?case
    by (simp add: products_def weights_def algebra_simps)
qed

lemma sum_weights_pos:
  assumes "\<forall>r\<in>set grp. 0 \<le> real_of (wc r)" and "\<exists>r\<in>set grp. 0 < real_of (wc r)"
  shows "0 < sum_list (weights grp wc)"
  using assms
proof (induction grp)
  case Nil
  then show ?case by simp
next
  case (Cons r grp)
  have nn: "0 \<le> sum_list (weights grp wc)"
    unfolding weights_def using Cons.prems(1) by (intro sum_list_nonneg) auto
  show ?case
  proof (cases "0 < real_of (wc r)")
    case True
    with nn show ?thesis by (simp add: weights_def)
  next
    case False
    with Cons.prems have "\<exists>r\<in>set grp. 0 < real_of (wc r)" by auto
    with Cons have "0 < sum_list (weights grp wc)" by simp
    moreover have "0 \<le> real_of (wc r)" using Cons.prems by simp
    ultimately show ?thesis unfolding weights_def by simp 
  qed
qed

lemma sum_products_const:
  "\<forall>r\<in>set grp. real_of (vc r) = v \<Longrightarrow>
   sum_list (products grp vc wc) = v * sum_list (weights grp wc)"
  by (induction grp) (simp_all add: products_def weights_def algebra_simps)

lemma scale_weights_columns:
  assumes "all_finite grp Data_Value Sample_Size"
    and "list_all representable (map ((*) c) (weights grp Sample_Size))"
  shows "all_finite (scale_weights (Fin c) grp) Data_Value Sample_Size \<and>
         weights (scale_weights (Fin c) grp) Sample_Size = map ((*) c) (weights grp Sample_Size) \<and>
         products (scale_weights (Fin c) grp) Data_Value Sample_Size =
           map ((*) c) (products grp Data_Value Sample_Size)"
  using assms
proof (induction grp)
  case Nil
  then show ?case
    by (simp add: scale_weights_def all_finite_def weights_def products_def)
next
  case (Cons r grp)
  from Cons.prems(1) obtain x w where xw: "Data_Value r = Fin x" "Sample_Size r = Fin w"
    by (auto simp: all_finite_def is_Fin_def)
  from Cons.prems(2) xw have rep: "round64 (c * w) = Fin (c * w)"
    by (simp add: weights_def representable_def)
  have ih: "all_finite (scale_weights (Fin c) grp) Data_Value Sample_Size \<and>
         weights (scale_weights (Fin c) grp) Sample_Size = map ((*) c) (weights grp Sample_Size) \<and>
         products (scale_weights (Fin c) grp) Data_Value Sample_Size =
           map ((*) c) (products grp Data_Value Sample_Size)"
    using Cons by (simp add: all_finite_def weights_def)
  from ih xw rep show ?case
    by (simp add: scale_weights_def all_finite_def weights_def products_def)
qed

lemma sum_list_scaled: "sum_list (map ((*) c) xs) = c * sum_list (xs :: real list)"
  by (induction xs) (simp_all add: algebra_simps)

lemma fdiv_scaled:
  assumes "0 < c"
  shows "fdiv (Fin (c * p)) (Fin (c * w)) = fdiv (Fin p) (Fin w)"
proof (cases "w = 0")
  case True
  with assms show ?thesis
    by (simp add: zero_less_mult_iff mult_less_0_iff)
next
  case False
  with assms show ?thesis by simp
qed

section \<open>Grouping\<close>

lemma set_group_keys: "set (group_keys df) = group_key ` set df"
  by (simp add: group_keys_def)

lemma distinct_group_keys: "distinct (group_keys df)"
  by (simp add: group_keys_def)

lemma get_group_nonempty: "k \<in> set (group_keys df) \<Longrightarrow> get_group k df \<noteq> []"
  by (auto simp: set_group_keys get_group_def filter_empty_conv)

lemma df_nat_rows:
  "df_nat df_age =
     (if dropna (coerce_sample_size df_age) = [] then Inl TypeError
      else Inr (map (\<lambda>k. \<lparr>year = fst k, age_group = snd k,
              obesity_rate = weighted_mean (get_group k (dropna (coerce_sample_size df_age)))
                               Data_Value Sample_Size\<rparr>)
             (group_keys (dropna (coerce_sample_size df_age)))))"
  by (simp add: df_nat_def groupby_apply_def Let_def case_prod_beta)

lemma set_df_nat:
  assumes "df_nat df_age = Inr rows"
  shows "set rows =
     (\<lambda>k. \<lparr>year = fst k, age_group = snd k,
            obesity_rate = weighted_mean (get_group k (dropna (coerce_sample_size df_age)))
                             Data_Value Sample_Size\<rparr>)
       ` group_key ` set (dropna (coerce_sample_size df_age))"
  using assms by (auto simp: df_nat_rows set_group_keys split: if_splits)

lemma age_groups_df_nat:
  assumes "df_nat df_age = Inr rows"
  shows "age_group ` set rows = Stratification1 ` set (dropna (coerce_sample_size df_age))"
  by (simp add: set_df_nat [OF assms] image_image group_key_def)

section \<open>Claims about the weighted aggregator\<close>

text \<open>
  C1 (amended). The aggregated table has one row for each (year, category) key of the valid
  rows, whose rate is \<open>weighted_mean\<close> of the rows of that key. For every group of rows
  with finite values and weights and a non-zero total weight, whose products and sums are
  computed exactly, \<open>weighted_mean\<close> returns the float64 number nearest to
  \<open>(\<Sum> value_i * weight_i) / (\<Sum> weight_i)\<close>, and that number itself when it is a float64
  number. For the rows (2015, "18 - 24", 28.0, 100) and (2015, "18 - 24", 32.0, 300) it is
  exactly 31.0.
\<close>

theorem weighted_mean_per_group:
  "(df_nat df_age = Inr rows \<longrightarrow>
    set rows =
     (\<lambda>k. \<lparr>year = fst k, age_group = snd k,
            obesity_rate = weighted_mean (get_group k (dropna (coerce_sample_size df_age)))
                             Data_Value Sample_Size\<rparr>)
       ` group_key ` set (dropna (coerce_sample_size df_age))) \<and>
   (all_finite grp Data_Value Sample_Size \<and> exact_sums_of grp Data_Value Sample_Size \<and>
    sum_list (weights grp Sample_Size) \<noteq> 0 \<longrightarrow>
    weighted_mean grp Data_Value Sample_Size =
      round64 (sum_list (products grp Data_Value Sample_Size) /
               sum_list (weights grp Sample_Size))) \<and>
   (all_finite grp Data_Value Sample_Size \<and> no_rounding grp Data_Value Sample_Size \<and>
    sum_list (weights grp Sample_Size) \<noteq> 0 \<longrightarrow>
    weighted_mean grp Data_Value Sample_Size =
      Fin (sum_list (products grp Data_Value Sample_Size) / sum_list (weights grp Sample_Size)))"
proof (intro conjI impI)
  assume "df_nat df_age = Inr rows"
  then show "set rows =
     (\<lambda>k. \<lparr>year = fst k, age_group = snd k,
            obesity_rate = weighted_mean (get_group k (dropna (coerce_sample_size df_age)))
                             Data_Value Sample_Size\<rparr>)
       ` group_key ` set (dropna (coerce_sample_size df_age))"
    by (rule set_df_nat)
next
  assume "all_finite grp Data_Value Sample_Size \<and> exact_sums_of grp Data_Value Sample_Size \<and>
    sum_list (weights grp Sample_Size) \<noteq> 0"
  then show "weighted_mean grp Data_Value Sample_Size =
      round64 (sum_list (products grp Data_Value Sample_Size) /
               sum_list (weights grp Sample_Size))"
    by (simp add: weighted_mean_exact_sums)
next
  assume "all_finite grp Data_Value Sample_Size \<and> no_rounding grp Data_Value Sample_Size \<and>
    sum_list (weights grp Sample_Size) \<noteq> 0"
  then show "weighted_mean grp Data_Value Sample_Size =
      Fin (sum_list (products grp Data_Value Sample_Size) / sum_list (weights grp Sample_Size))"
    by (simp add: weighted_mean_exact)
qed

lemma age_scenario:
  "df_nat table_B =
     Inr [\<lparr>year = 2015, age_group = ''18 - 24'', obesity_rate = Fin 31\<rparr>,
          \<lparr>year = 2016, age_group = ''18 - 24'', obesity_rate = Fin 30\<rparr>]"
  by (simp add: df_nat_def table_defs frame_eval wm_eval round64_eval)

theorem weighted_mean_per_group_witness:
  "df_nat table_B =
     Inr [\<lparr>year = 2015, age_group = ''18 - 24'', obesity_rate = Fin 31\<rparr>,
          \<lparr>year = 2016, age_group = ''18 - 24'', obesity_rate = Fin 30\<rparr>] \<and>
   get_group (2015, ''18 - 24'') (dropna (coerce_sample_size table_B)) = exact_group \<and>
   all_finite exact_group Data_Value Sample_Size \<and>
   no_rounding exact_group Data_Value Sample_Size \<and>
   sum_list (weights exact_group Sample_Size) \<noteq> 0 \<and>
   weighted_mean exact_group Data_Value Sample_Size = Fin ((28 * 100 + 32 * 300) / 400) \<and>
   \<lparr>year = 2015, age_group = ''18 - 24'',
      obesity_rate = weighted_mean exact_group Data_Value Sample_Size\<rparr> \<in>
     set [\<lparr>year = 2015, age_group = ''18 - 24'', obesity_rate = Fin 31\<rparr>,
          \<lparr>year = 2016, age_group = ''18 - 24'', obesity_rate = Fin 30\<rparr>] \<and>
   all_finite thirds_group Data_Value Sample_Size \<and>
   exact_sums_of thirds_group Data_Value Sample_Size \<and>
   sum_list (weights thirds_group Sample_Size) \<noteq> 0 \<and>
   weighted_mean thirds_group Data_Value Sample_Size = round64 (5 / 3) \<and>
   round64 (5 / 3) = Fin (7505999378950827 / 4503599627370496)"
proof -
  have g: "get_group (2015, ''18 - 24'') (dropna (coerce_sample_size table_B)) = exact_group"
    by (simp add: table_B_def group_defs get_group_def group_key_def dropna_def
        coerce_sample_size_def)
  have h: "all_finite exact_group Data_Value Sample_Size"
    "no_rounding exact_group Data_Value Sample_Size"
    "sum_list (weights exact_group Sample_Size) \<noteq> 0"
    by (simp_all add: group_defs exact_eval round64_eval)
  have q: "sum_list (products exact_group Data_Value Sample_Size) /
           sum_list (weights exact_group Sample_Size) = (28 * 100 + 32 * 300) / 400"
    by (simp add: group_defs products_def weights_def)
  have k: "(2015, ''18 - 24'') \<in> group_key ` set (dropna (coerce_sample_size table_B))"
    by (simp add: table_B_def survey_def group_key_def dropna_def coerce_sample_size_def)
  note t = weighted_mean_per_group [of table_B
      "[\<lparr>year = 2015, age_group = ''18 - 24'', obesity_rate = Fin 31\<rparr>,
        \<lparr>year = 2016, age_group = ''18 - 24'', obesity_rate = Fin 30\<rparr>]" exact_group]
  from t have "df_nat table_B =
      Inr [\<lparr>year = 2015, age_group = ''18 - 24'', obesity_rate = Fin 31\<rparr>,
           \<lparr>year = 2016, age_group = ''18 - 24'', obesity_rate = Fin 30\<rparr>] \<longrightarrow>
    set [\<lparr>year = 2015, age_group = ''18 - 24'', obesity_rate = Fin 31\<rparr>,
         \<lparr>year = 2016, age_group = ''18 - 24'', obesity_rate = Fin 30\<rparr>] =
     (\<lambda>k. \<lparr>year = fst k, age_group = snd k,
            obesity_rate = weighted_mean (get_group k (dropna (coerce_sample_size table_B)))
                             Data_Value Sample_Size\<rparr>)
       ` group_key ` set (dropna (coerce_sample_size table_B))"
    by (rule conjunct1)
  from this age_scenario
  have rows: "set [\<lparr>year = 2015, age_group = ''18 - 24'', obesity_rate = Fin 31\<rparr>,
         \<lparr>year = 2016, age_group = ''18 - 24'', obesity_rate = Fin 30\<rparr>] =
     (\<lambda>k. \<lparr>year = fst k, age_group = snd k,
            obesity_rate = weighted_mean (get_group k (dropna (coerce_sample_size table_B)))
                             Data_Value Sample_Size\<rparr>)
       ` group_key ` set (dropna (coerce_sample_size table_B))"
    by (rule mp)
  from t have "all_finite exact_group Data_Value Sample_Size \<and>
      no_rounding exact_group Data_Value Sample_Size \<and>
      sum_list (weights exact_group Sample_Size) \<noteq> 0 \<longrightarrow>
    weighted_mean exact_group Data_Value Sample_Size =
      Fin (sum_list (products exact_group Data_Value Sample_Size) /
           sum_list (weights exact_group Sample_Size))"
    by (rule conjunct2 [THEN conjunct2])
  with h have "weighted_mean exact_group Data_Value Sample_Size =
      Fin (sum_list (products exact_group Data_Value Sample_Size) /
           sum_list (weights exact_group Sample_Size))"
    by simp
  then have wm: "weighted_mean exact_group Data_Value Sample_Size =
      Fin ((28 * 100 + 32 * 300) / 400)"
    unfolding q .
  have m: "\<lparr>year = 2015, age_group = ''18 - 24'',
      obesity_rate = weighted_mean exact_group Data_Value Sample_Size\<rparr> \<in>
     set [\<lparr>year = 2015, age_group = ''18 - 24'', obesity_rate = Fin 31\<rparr>,
          \<lparr>year = 2016, age_group = ''18 - 24'', obesity_rate = Fin 30\<rparr>]"
    unfolding rows using k by (rule rev_image_eqI) (simp add: g)
  have h3: "all_finite thirds_group Data_Value Sample_Size"
    "exact_sums_of thirds_group Data_Value Sample_Size"
    "sum_list (weights thirds_group Sample_Size) \<noteq> 0"
    by (simp_all add: group_defs exact_eval round64_eval)
  have q3: "sum_list (products thirds_group Data_Value Sample_Size) /
            sum_list (weights thirds_group Sample_Size) = 5 / 3"
    by (simp add: group_defs products_def weights_def)
  have "all_finite thirds_group Data_Value Sample_Size \<and>
      exact_sums_of thirds_group Data_Value Sample_Size \<and>
      sum_list (weights thirds_group Sample_Size) \<noteq> 0 \<longrightarrow>
    weighted_mean thirds_group Data_Value Sample_Size =
      round64 (sum_list (products thirds_group Data_Value Sample_Size) /
               sum_list (weights thirds_group Sample_Size))"
    by (rule weighted_mean_per_group [of table_B "[]" thirds_group,
          THEN conjunct2, THEN conjunct1])
  with h3 have "weighted_mean thirds_group Data_Value Sample_Size =
      round64 (sum_list (products thirds_group Data_Value Sample_Size) /
               sum_list (weights thirds_group Sample_Size))"
    by simp
  then have wm3: "weighted_mean thirds_group Data_Value Sample_Size = round64 (5 / 3)"
    unfolding q3 .
  have r3: "round64 (5 / 3) = Fin (7505999378950827 / 4503599627370496)"
    by (simp add: round64_eval)
  from age_scenario g h wm m h3 wm3 r3 show ?thesis by blast
qed

text \<open>
  C1 as stated fails. The rows of value 28.3 with weight 3 and of value 31.7 with weight 36
  have the weighted mean 31.438461538461539..., whose nearest float64 number is
  31.43846153846154; \<open>weighted_mean\<close> returns 31.438461538461542, since the products and
  their sum are rounded on the way. And a group whose weights are all zero has no mean: the
  quotient 0.0 / 0.0 is NaN.
\<close>

theorem weighted_mean_per_group_counterexample:
  "all_finite rounded_group Data_Value Sample_Size \<and>
   sum_list (weights rounded_group Sample_Size) = 39 \<and>
   sum_list (products rounded_group Data_Value Sample_Size) /
     sum_list (weights rounded_group Sample_Size) =
     115038822981645105 / 3659174697238528 \<and>
   round64 (115038822981645105 / 3659174697238528) =
     Fin (2212285057339329 / 70368744177664) \<and>
   weighted_mean rounded_group Data_Value Sample_Size =
     Fin (8849140229357317 / 281474976710656) \<and>
   weighted_mean rounded_group Data_Value Sample_Size \<noteq>
     Fin (sum_list (products rounded_group Data_Value Sample_Size) /
          sum_list (weights rounded_group Sample_Size)) \<and>
   weighted_mean rounded_group Data_Value Sample_Size \<noteq>
     round64 (sum_list (products rounded_group Data_Value Sample_Size) /
              sum_list (weights rounded_group Sample_Size)) \<and>
   weighted_mean zero_weight_group Data_Value Sample_Size = NaN"
proof -
  have a: "all_finite rounded_group Data_Value Sample_Size"
    by (simp add: group_defs all_finite_def)
  have w: "sum_list (weights rounded_group Sample_Size) = 39"
    by (simp add: group_defs weights_def)
  have q: "sum_list (products rounded_group Data_Value Sample_Size) /
     sum_list (weights rounded_group Sample_Size) =
     115038822981645105 / 3659174697238528"
    by (simp add: group_defs weights_def products_def f28_3_def f31_7_def)
  have r: "round64 (115038822981645105 / 3659174697238528) =
     Fin (2212285057339329 / 70368744177664)"
    by (simp add: round64_eval)
  have m: "weighted_mean rounded_group Data_Value Sample_Size =
     Fin (8849140229357317 / 281474976710656)"
    by (simp add: group_defs wm_eval round64_eval f28_3_def f31_7_def)
  have z: "weighted_mean zero_weight_group Data_Value Sample_Size = NaN"
    by (simp add: group_defs wm_eval round64_eval inf_of_sign_def)
  have n1: "weighted_mean rounded_group Data_Value Sample_Size \<noteq>
     Fin (sum_list (products rounded_group Data_Value Sample_Size) /
          sum_list (weights rounded_group Sample_Size))"
    unfolding q m by simp
  have n2: "weighted_mean rounded_group Data_Value Sample_Size \<noteq>
     round64 (sum_list (products rounded_group Data_Value Sample_Size) /
              sum_list (weights rounded_group Sample_Size))"
    unfolding q m r by simp
  from a w q r m n1 n2 z show ?thesis by blast
qed

text \<open>
  C6 (amended). For every group with a non-zero total weight in which every row has the same
  value \<open>v\<close> and whose run rounds nothing, \<open>weighted_mean\<close> returns exactly \<open>v\<close>, whatever
  the weights.
\<close>

theorem weighted_mean_same_value:
  assumes "\<forall>r\<in>set grp. Data_Value r = Fin v"
    and "\<forall>r\<in>set grp. is_Fin (Sample_Size r)"
    and "no_rounding grp Data_Value Sample_Size"
    and "sum_list (weights grp Sample_Size) \<noteq> 0"
  shows "weighted_mean grp Data_Value Sample_Size = Fin v"
proof -
  have fin: "all_finite grp Data_Value Sample_Size"
    using assms(1,2) by (simp add: all_finite_def list_all_iff)
  have "sum_list (products grp Data_Value Sample_Size) = v * sum_list (weights grp Sample_Size)"
    using assms(1) by (intro sum_products_const) simp
  with weighted_mean_exact [OF fin assms(3,4)] assms(4) show ?thesis by simp
qed

theorem weighted_mean_same_value_witness:
  "list_all (\<lambda>r. Data_Value r = Fin 28 \<and> is_Fin (Sample_Size r)) const_group \<and>
   no_rounding const_group Data_Value Sample_Size \<and>
   sum_list (weights const_group Sample_Size) \<noteq> 0 \<and>
   weighted_mean const_group Data_Value Sample_Size = Fin 28"
proof -
  have h: "\<forall>r\<in>set const_group. Data_Value r = Fin 28"
    "\<forall>r\<in>set const_group. is_Fin (Sample_Size r)"
    "no_rounding const_group Data_Value Sample_Size"
    "sum_list (weights const_group Sample_Size) \<noteq> 0"
    by (simp_all add: group_defs exact_eval round64_eval)
  from weighted_mean_same_value [OF h] h show ?thesis by (simp add: list_all_iff)
qed

text \<open>
  C6 as stated fails twice. A group whose weights are all zero has no mean: the quotient
  0.0 / 0.0 is NaN. And with weights 1 and 12, two rows of value 28.3 give
  28.300000000000004: the product 28.3 * 12 and the sum 28.3 + 339.6 are rounded.
\<close>

theorem weighted_mean_same_value_counterexample:
  "weighted_mean zero_weight_group Data_Value Sample_Size = NaN \<and>
   round64 (283 / 10) = Fin f28_3 \<and>
   weighted_mean same_value_group Data_Value Sample_Size =
     Fin (3982870920455783 / 140737488355328) \<and>
   Fin (3982870920455783 / 140737488355328) \<noteq> Fin f28_3"
  by (simp add: group_defs wm_eval round64_eval f28_3_def inf_of_sign_def)

text \<open>
  C7 (amended). For every group of rows with non-negative weights, at least one of them
  positive, whose run rounds nothing, the output of \<open>weighted_mean\<close> lies in the closed
  interval from the minimum to the maximum of the group's values.
\<close>

theorem weighted_mean_within_bounds:
  assumes "all_finite grp Data_Value Sample_Size"
    and "no_rounding grp Data_Value Sample_Size"
    and "\<forall>r\<in>set grp. 0 \<le> real_of (Sample_Size r)"
    and "\<exists>r\<in>set grp. 0 < real_of (Sample_Size r)"
  shows "\<exists>q. weighted_mean grp Data_Value Sample_Size = Fin q \<and>
             Min ((\<lambda>r. real_of (Data_Value r)) ` set grp) \<le> q \<and>
             q \<le> Max ((\<lambda>r. real_of (Data_Value r)) ` set grp)"
proof -
  let ?X = "(\<lambda>r. real_of (Data_Value r)) ` set grp"
  let ?W = "sum_list (weights grp Sample_Size)"
  let ?P = "sum_list (products grp Data_Value Sample_Size)"
  have pos: "0 < ?W" using sum_weights_pos [OF assms(3,4)] .
  have "\<forall>r\<in>set grp. Min ?X \<le> real_of (Data_Value r) \<and> real_of (Data_Value r) \<le> Max ?X"
    by simp
  from sum_products_bounds [OF assms(3) this]
  have "Min ?X * ?W \<le> ?P" and "?P \<le> Max ?X * ?W" by simp_all
  with pos have "Min ?X \<le> ?P / ?W" and "?P / ?W \<le> Max ?X"
    by (simp_all add: field_simps)
  moreover have "weighted_mean grp Data_Value Sample_Size = Fin (?P / ?W)"
    using weighted_mean_exact [OF assms(1,2)] pos by simp
  ultimately show ?thesis by blast
qed

theorem weighted_mean_within_bounds_witness:
  "all_finite exact_group Data_Value Sample_Size \<and>
   no_rounding exact_group Data_Value Sample_Size \<and>
   list_all (\<lambda>r. 0 \<le> real_of (Sample_Size r)) exact_group \<and>
   list_ex (\<lambda>r. 0 < real_of (Sample_Size r)) exact_group \<and>
   (\<exists>q. weighted_mean exact_group Data_Value Sample_Size = Fin q \<and> 28 \<le> q \<and> q \<le> 32)"
proof -
  have h: "all_finite exact_group Data_Value Sample_Size"
    "no_rounding exact_group Data_Value Sample_Size"
    "\<forall>r\<in>set exact_group. 0 \<le> real_of (Sample_Size r)"
    "\<exists>r\<in>set exact_group. 0 < real_of (Sample_Size r)"
    by (simp_all add: group_defs exact_eval round64_eval)
  have m: "Min ((\<lambda>r. real_of (Data_Value r)) ` set exact_group) = 28"
    "Max ((\<lambda>r. real_of (Data_Value r)) ` set exact_group) = 32"
    by (simp_all add: group_defs)
  from weighted_mean_within_bounds [OF h] m h show ?thesis
    by (simp add: list_all_iff list_ex_iff)
qed

text \<open>
  C7 as stated fails: with weights 1 and 23, two rows of value 28.3 give
  28.299999999999997, which is below the minimum 28.3 of the group's values.
\<close>

theorem weighted_mean_within_bounds_counterexample:
  "round64 (283 / 10) = Fin f28_3 \<and>
   weighted_mean low_group Data_Value Sample_Size = Fin (1991435460227891 / 70368744177664) \<and>
   1991435460227891 / 70368744177664 < Min ((\<lambda>r. real_of (Data_Value r)) ` set low_group)"
  by (simp add: group_defs wm_eval round64_eval f28_3_def)

text \<open>
  C10 (amended). For every group and every positive scale factor \<open>c\<close>, if multiplying the
  weights by \<open>c\<close> rounds nothing and the products and sums of both runs are exact, then
  \<open>weighted_mean\<close> of the group with every weight multiplied by \<open>c\<close> equals \<open>weighted_mean\<close>
  of the group.
\<close>

theorem weighted_mean_scale_invariant:
  assumes "all_finite grp Data_Value Sample_Size"
    and "0 < c"
    and "list_all representable (map ((*) c) (weights grp Sample_Size))"
    and "exact_sums_of grp Data_Value Sample_Size"
    and "exact_sums_of (scale_weights (Fin c) grp) Data_Value Sample_Size"
  shows "weighted_mean (scale_weights (Fin c) grp) Data_Value Sample_Size =
         weighted_mean grp Data_Value Sample_Size"
proof -
  note cols = scale_weights_columns [OF assms(1,3)]
  have "weighted_mean (scale_weights (Fin c) grp) Data_Value Sample_Size =
        fdiv (Fin (c * sum_list (products grp Data_Value Sample_Size)))
             (Fin (c * sum_list (weights grp Sample_Size)))"
    using weighted_mean_exact_sums [OF _ assms(5)] cols by (simp add: sum_list_scaled)
  also have "\<dots> = fdiv (Fin (sum_list (products grp Data_Value Sample_Size)))
                        (Fin (sum_list (weights grp Sample_Size)))"
    using assms(2) by (rule fdiv_scaled)
  also have "\<dots> = weighted_mean grp Data_Value Sample_Size"
    using weighted_mean_exact_sums [OF assms(1,4)] by simp
  finally show ?thesis .
qed

theorem weighted_mean_scale_invariant_witness:
  "all_finite exact_group Data_Value Sample_Size \<and> (0::real) < 3 \<and>
   list_all representable (map ((*) 3) (weights exact_group Sample_Size)) \<and>
   exact_sums_of exact_group Data_Value Sample_Size \<and>
   exact_sums_of (scale_weights (Fin 3) exact_group) Data_Value Sample_Size \<and>
   weighted_mean (scale_weights (Fin 3) exact_group) Data_Value Sample_Size = Fin 31 \<and>
   weighted_mean exact_group Data_Value Sample_Size = Fin 31"
proof -
  have h: "all_finite exact_group Data_Value Sample_Size" "(0::real) < 3"
    "list_all representable (map ((*) 3) (weights exact_group Sample_Size))"
    "exact_sums_of exact_group Data_Value Sample_Size"
    "exact_sums_of (scale_weights (Fin 3) exact_group) Data_Value Sample_Size"
    by (simp_all add: group_defs exact_eval round64_eval scale_weights_def)
  have e: "weighted_mean exact_group Data_Value Sample_Size = Fin 31"
    by (simp add: group_defs wm_eval round64_eval)
  from weighted_mean_scale_invariant [OF h] e h show ?thesis by simp
qed

text \<open>
  C10 as stated fails: the rows (28.3, weight 1) and (31.7, weight 12) give
  31.43846153846154, and with the weights tripled, 3 and 36, they give 31.438461538461542.
\<close>

theorem weighted_mean_scale_invariant_counterexample:
  "round64 (283 / 10) = Fin f28_3 \<and> round64 (317 / 10) = Fin f31_7 \<and>
   weighted_mean mixed_group Data_Value Sample_Size = Fin (2212285057339329 / 70368744177664) \<and>
   weighted_mean (scale_weights (Fin 3) mixed_group) Data_Value Sample_Size =
     Fin (8849140229357317 / 281474976710656) \<and>
   Fin (2212285057339329 / 70368744177664) \<noteq> Fin (8849140229357317 / 281474976710656)"
  by (simp add: group_defs wm_eval round64_eval f28_3_def f31_7_def scale_weights_def)

section \<open>Claims about the age heatmap\<close>

text \<open>
  C8 (amended). For every input table with a valid row, the set of \<open>age_group\<close> categories
  of the aggregated output of the age-heatmap builder is the set of the categories of the
  input rows that have a numeric sample size and a value: a category outside the canonical
  six-band list is kept, and the canonical list is handed on unchanged as the order of the
  axis. The builder fails, with a TypeError, exactly on the tables without a valid row.
\<close>

theorem heatmap_age_groups:
  "(case make_age_heatmap df_age of
      Inl e \<Rightarrow> e = TypeError \<and> dropna (coerce_sample_size df_age) = []
    | Inr chart \<Rightarrow>
        dropna (coerce_sample_size df_age) \<noteq> [] \<and>
        age_group ` set (chart_data chart) =
          Stratification1 ` set (dropna (coerce_sample_size df_age)) \<and>
        y_sort chart = age_order)"
proof (cases "df_nat df_age")
  case (Inl e)
  then show ?thesis
    by (simp add: make_age_heatmap_def df_nat_rows split: if_splits)
next
  case (Inr rows)
  then have "dropna (coerce_sample_size df_age) \<noteq> []"
    by (simp add: df_nat_rows split: if_splits)
  with Inr age_groups_df_nat [OF Inr] show ?thesis
    by (simp add: make_age_heatmap_def)
qed

lemma heatmap_without_valid_row: "make_age_heatmap table_invalid = Inl TypeError"
  by (simp add: make_age_heatmap_def df_nat_rows table_invalid_def survey_def dropna_def
      coerce_sample_size_def)

text \<open>
  C8 as stated fails: a row of the band "Under 18" reaches the aggregated output, so it is
  not rejected, and the order handed to the axis is still the six canonical bands, so it is
  not appended to the order either.
\<close>

theorem heatmap_age_groups_counterexample:
  "make_age_heatmap table_unknown_band =
     Inr \<lparr>chart_data =
            [\<lparr>year = 2015, age_group = ''18 - 24'', obesity_rate = Fin 28\<rparr>,
             \<lparr>year = 2015, age_group = ''Under 18'', obesity_rate = Fin 20\<rparr>],
          y_sort = age_order\<rparr> \<and>
   ''Under 18'' \<notin> set age_order"
  by (simp add: make_age_heatmap_def df_nat_def table_unknown_band_def survey_def frame_eval
      wm_eval round64_eval age_order_def)

section \<open>Claims about the income table\<close>

lemma aggregate_income_rows:
  "aggregate_income df =
     (if dropna (coerce_sample_size df) = [] then Inl TypeError
      else Inr (map (\<lambda>k. \<lparr>YearStart = fst k,
              Data_Value = weighted_mean (get_group k (dropna (coerce_sample_size df)))
                             Data_Value Sample_Size,
              Stratification1 = snd k\<rparr>)
             (group_keys (dropna (coerce_sample_size df)))))"
  by (simp add: aggregate_income_def groupby_apply_def Let_def case_prod_beta)

lemma aggregate_income_keys:
  assumes "aggregate_income df = Inr agg"
  shows "map group_key agg = group_keys (dropna (coerce_sample_size df))"
  using assms by (auto simp: aggregate_income_rows group_key_def comp_def split: if_splits)

lemma distinct_aggregate_income_keys:
  "aggregate_income df = Inr agg \<Longrightarrow> distinct (map group_key agg)"
  by (simp add: aggregate_income_keys distinct_group_keys)

lemma distinct_base_2011:
  assumes "distinct (map group_key agg)"
  shows "distinct (map fst (base_2011 agg))"
proof -
  have "map fst (base_2011 agg) = map Stratification1 (filter (\<lambda>r. YearStart r = 2011) agg)"
    by (simp add: base_2011_def comp_def)
  moreover have "distinct (map Stratification1 (filter (\<lambda>r. YearStart r = 2011) agg))"
    using assms
  proof (induction agg)
    case Nil
    then show ?case by simp
  next
    case (Cons a agg)
    then show ?case by (auto simp: group_key_def image_iff)
  qed
  ultimately show ?thesis by simp
qed

lemma filter_key_distinct:
  "distinct (map fst right) \<Longrightarrow>
   filter (\<lambda>(c, b). c = k) right = (case map_of right k of None \<Rightarrow> [] | Some b \<Rightarrow> [(k, b)])"
proof (induction right)
  case Nil
  then show ?case by simp
next
  case (Cons p right)
  obtain c b where p: "p = (c, b)" by (cases p)
  show ?case
  proof (cases "c = k")
    case True
    with Cons.prems p have "k \<notin> fst ` set right" by simp
    then have "filter (\<lambda>(c, b). c = k) right = []"
      by (force simp: filter_empty_conv image_iff)
    with True p show ?thesis by simp
  next
    case False
    with Cons p show ?thesis by simp
  qed
qed

lemma merge_left_distinct:
  assumes "distinct (map fst right)"
  shows "merge_left left right =
     map (\<lambda>l. \<lparr>YearStart = YearStart l, Data_Value = Data_Value l,
               Stratification1 = Stratification1 l,
               Base_2011 = baseline_of right (Stratification1 l)\<rparr>) left"
proof (induction left)
  case Nil
  then show ?case by (simp add: merge_left_def)
next
  case (Cons l left)
  have "merge_left (l # left) right =
        (case filter (\<lambda>(c, b). c = Stratification1 l) right of
          [] \<Rightarrow> [\<lparr>YearStart = YearStart l, Data_Value = Data_Value l,
                  Stratification1 = Stratification1 l, Base_2011 = NaN\<rparr>]
        | ms \<Rightarrow> map (\<lambda>(c, b). \<lparr>YearStart = YearStart l, Data_Value = Data_Value l,
                  Stratification1 = Stratification1 l, Base_2011 = b\<rparr>) ms) @
        merge_left left right"
    by (simp add: merge_left_def)
  also have "(case filter (\<lambda>(c, b). c = Stratification1 l) right of
          [] \<Rightarrow> [\<lparr>YearStart = YearStart l, Data_Value = Data_Value l,
                  Stratification1 = Stratification1 l, Base_2011 = NaN\<rparr>]
        | ms \<Rightarrow> map (\<lambda>(c, b). \<lparr>YearStart = YearStart l, Data_Value = Data_Value l,
                  Stratification1 = Stratification1 l, Base_2011 = b\<rparr>) ms) =
        [\<lparr>YearStart = YearStart l, Data_Value = Data_Value l,
               Stratification1 = Stratification1 l,
               Base_2011 = baseline_of right (Stratification1 l)\<rparr>]"
    by (simp add: filter_key_distinct [OF assms] baseline_of_def split: option.split)
  finally show ?case using Cons by simp
qed

lemma df_inc_agg_rows:
  assumes "aggregate_income df = Inr agg"
  shows "df_inc_agg df =
     Inr (map (\<lambda>l. \<lparr>YearStart = YearStart l, Data_Value = Data_Value l,
               Stratification1 = Stratification1 l,
               Base_2011 = baseline_of (base_2011 agg) (Stratification1 l),
               Growth = fsub (Data_Value l)
                 (baseline_of (base_2011 agg) (Stratification1 l))\<rparr>) agg)"
proof -
  have d: "distinct (map fst (base_2011 agg))"
    by (rule distinct_base_2011 [OF distinct_aggregate_income_keys [OF assms]])
  show ?thesis
    by (simp add: df_inc_agg_def assms add_growth_def comp_def merge_left_distinct [OF d])
qed

lemma df_inc_agg_Inr:
  assumes "df_inc_agg df = Inr rows"
  obtains agg where "aggregate_income df = Inr agg"
  using assms by (cases "aggregate_income df") (simp_all add: df_inc_agg_def)

lemma baseline_of_own_row:
  assumes "distinct (map group_key agg)" and "l \<in> set agg" and "YearStart l = 2011"
  shows "baseline_of (base_2011 agg) (Stratification1 l) = Data_Value l"
proof -
  have "(Stratification1 l, Data_Value l) \<in> set (base_2011 agg)"
    using assms(2,3) by (auto simp: base_2011_def)
  with distinct_base_2011 [OF assms(1)]
  have "map_of (base_2011 agg) (Stratification1 l) = Some (Data_Value l)"
    by simp
  then show ?thesis by (simp add: baseline_of_def)
qed

lemma baseline_of_absent:
  assumes "c \<notin> Stratification1 ` {a \<in> set agg. YearStart a = 2011}"
  shows "baseline_of (base_2011 agg) c = NaN"
proof -
  have "c \<notin> fst ` set (base_2011 agg)"
    using assms by (auto simp: base_2011_def image_iff)
  then have "map_of (base_2011 agg) c = None"
    by (simp add: map_of_eq_None_iff)
  then show ?thesis by (simp add: baseline_of_def)
qed

lemma fsub_self: "is_Fin v \<Longrightarrow> fsub v v = Fin 0"
  by (cases v) (simp_all add: fsub_def round64_def)

lemma fsub_NaN: "fsub v NaN = NaN"
  by (cases v) (simp_all add: fsub_def)

lemma income_scenario_aggregate: "aggregate_income table_C = Inr table_C_aggregated"
  by (simp add: aggregate_income_def table_C_aggregated_def table_defs frame_eval wm_eval
      round64_eval)

lemma income_scenario: "df_inc_agg table_C = Inr table_C_growth"
  by (simp add: df_inc_agg_def income_scenario_aggregate table_C_aggregated_def
      table_C_growth_def base_2011_def merge_left_def add_growth_def round64_eval fsub_def)

text \<open>
  C4. For every income category that has a defined baseline value in the reference year
  2011, the growth computed for that category's own 2011 row equals 0: in every row of the
  year 2011 of the growth table whose baseline is a finite number, the growth is 0.
\<close>

theorem growth_of_baseline_year:
  assumes "df_inc_agg df = Inr rows" and "r \<in> set rows" and "YearStart r = 2011"
    and "is_Fin (Base_2011 r)"
  shows "Growth r = Fin 0"
proof -
  from assms(1) obtain agg where agg: "aggregate_income df = Inr agg"
    by (rule df_inc_agg_Inr)
  from assms(1,2) obtain l where l: "l \<in> set agg"
    and r: "r = \<lparr>YearStart = YearStart l, Data_Value = Data_Value l,
               Stratification1 = Stratification1 l,
               Base_2011 = baseline_of (base_2011 agg) (Stratification1 l),
               Growth = fsub (Data_Value l)
                 (baseline_of (base_2011 agg) (Stratification1 l))\<rparr>"
    unfolding df_inc_agg_rows [OF agg] by auto
  from r assms(3) have y: "YearStart l = 2011" by simp
  have b: "baseline_of (base_2011 agg) (Stratification1 l) = Data_Value l"
    using distinct_aggregate_income_keys [OF agg] l y by (rule baseline_of_own_row)
  from r b assms(4) have "is_Fin (Data_Value l)" by simp
  with r b show ?thesis by (simp add: fsub_self)
qed

theorem growth_of_baseline_year_witness:
  "df_inc_agg table_C = Inr table_C_growth \<and>
   table_C_growth ! 0 \<in> set table_C_growth \<and>
   Stratification1 (table_C_growth ! 0) = ''Less than $15,000'' \<and>
   YearStart (table_C_growth ! 0) = 2011 \<and>
   is_Fin (Base_2011 (table_C_growth ! 0)) \<and>
   Growth (table_C_growth ! 0) = Fin 0"
proof -
  have h: "table_C_growth ! 0 \<in> set table_C_growth"
    "YearStart (table_C_growth ! 0) = 2011"
    "is_Fin (Base_2011 (table_C_growth ! 0))"
    by (simp_all add: table_C_growth_def)
  have c: "Stratification1 (table_C_growth ! 0) = ''Less than $15,000''"
    by (simp add: table_C_growth_def)
  from growth_of_baseline_year [OF income_scenario h] income_scenario h c
  show ?thesis by blast
qed

text \<open>
  C5. The growth computation joins the aggregated (year, category) rows to the 2011
  baseline by category as a left join: the growth table has the aggregated rows, each
  once and in their order, and in every row whose category has no aggregated row of 2011
  the baseline and the growth are missing (NaN), not zero.
\<close>

theorem growth_left_join:
  "df_inc_agg df = Inr rows \<longrightarrow>
   (\<exists>agg. aggregate_income df = Inr agg \<and>
      map (\<lambda>r. (YearStart r, Stratification1 r, Data_Value r)) rows =
      map (\<lambda>r. (YearStart r, Stratification1 r, Data_Value r)) agg \<and>
      (\<forall>r\<in>set rows.
         Stratification1 r \<notin> Stratification1 ` {a \<in> set agg. YearStart a = 2011} \<longrightarrow>
         Base_2011 r = NaN \<and> Growth r = NaN))"
proof
  assume rows: "df_inc_agg df = Inr rows"
  then obtain agg where agg: "aggregate_income df = Inr agg"
    by (rule df_inc_agg_Inr)
  note eq = rows [unfolded df_inc_agg_rows [OF agg]]
  have "map (\<lambda>r. (YearStart r, Stratification1 r, Data_Value r)) rows =
      map (\<lambda>r. (YearStart r, Stratification1 r, Data_Value r)) agg"
    using eq by (auto simp: comp_def)
  moreover have "\<forall>r\<in>set rows.
         Stratification1 r \<notin> Stratification1 ` {a \<in> set agg. YearStart a = 2011} \<longrightarrow>
         Base_2011 r = NaN \<and> Growth r = NaN"
  proof (intro ballI impI)
    fix r
    assume r: "r \<in> set rows"
      and c: "Stratification1 r \<notin> Stratification1 ` {a \<in> set agg. YearStart a = 2011}"
    from r eq obtain l where "l \<in> set agg"
      and "r = \<lparr>YearStart = YearStart l, Data_Value = Data_Value l,
               Stratification1 = Stratification1 l,
               Base_2011 = baseline_of (base_2011 agg) (Stratification1 l),
               Growth = fsub (Data_Value l)
                 (baseline_of (base_2011 agg) (Stratification1 l))\<rparr>"
      by auto
    moreover from this(2) c
    have "baseline_of (base_2011 agg) (Stratification1 l) = NaN"
      by (intro baseline_of_absent) simp
    ultimately show "Base_2011 r = NaN \<and> Growth r = NaN"
      by (simp add: fsub_NaN)
  qed
  ultimately show "\<exists>agg. aggregate_income df = Inr agg \<and>
      map (\<lambda>r. (YearStart r, Stratification1 r, Data_Value r)) rows =
      map (\<lambda>r. (YearStart r, Stratification1 r, Data_Value r)) agg \<and>
      (\<forall>r\<in>set rows.
         Stratification1 r \<notin> Stratification1 ` {a \<in> set agg. YearStart a = 2011} \<longrightarrow>
         Base_2011 r = NaN \<and> Growth r = NaN)"
    using agg by blast
qed

theorem growth_left_join_witness:
  "df_inc_agg table_C = Inr table_C_growth \<and>
   aggregate_income table_C = Inr table_C_aggregated \<and>
   length table_C_growth = length table_C_aggregated \<and>
   table_C_growth ! 1 \<in> set table_C_growth \<and>
   Stratification1 (table_C_growth ! 1) = ''$75,000 or greater'' \<and>
   ''$75,000 or greater'' \<notin>
     Stratification1 ` {a \<in> set table_C_aggregated. YearStart a = 2011} \<and>
   Base_2011 (table_C_growth ! 1) = NaN \<and> Growth (table_C_growth ! 1) = NaN"
proof -
  have m: "table_C_growth ! 1 \<in> set table_C_growth"
    by (simp add: table_C_growth_def)
  have c: "Stratification1 (table_C_growth ! 1) = ''$75,000 or greater''"
    by (simp add: table_C_growth_def)
  have a: "''$75,000 or greater'' \<notin>
     Stratification1 ` {a \<in> set table_C_aggregated. YearStart a = 2011}"
    by (auto simp: table_C_aggregated_def)
  from growth_left_join [of table_C table_C_growth] income_scenario
  obtain agg where agg: "aggregate_income table_C = Inr agg"
    and cols: "map (\<lambda>r. (YearStart r, Stratification1 r, Data_Value r)) table_C_growth =
      map (\<lambda>r. (YearStart r, Stratification1 r, Data_Value r)) agg"
    and miss: "\<forall>r\<in>set table_C_growth.
         Stratification1 r \<notin> Stratification1 ` {a \<in> set agg. YearStart a = 2011} \<longrightarrow>
         Base_2011 r = NaN \<and> Growth r = NaN"
    by blast
  from agg income_scenario_aggregate have agg_eq: "agg = table_C_aggregated" by simp
  from cols have "length (map (\<lambda>r. (YearStart r, Stratification1 r, Data_Value r))
        table_C_growth) =
      length (map (\<lambda>r. (YearStart r, Stratification1 r, Data_Value r)) agg)"
    by simp
  then have len: "length table_C_growth = length table_C_aggregated"
    unfolding agg_eq by simp
  from miss m c a have "Base_2011 (table_C_growth ! 1) = NaN \<and>
      Growth (table_C_growth ! 1) = NaN"
    unfolding agg_eq by simp
  with income_scenario income_scenario_aggregate len m c a show ?thesis by blast
qed

section \<open>Claims about the trend and the map\<close>

lemma bottom_map_marks:
  "bottom_map states st df =
     map (\<lambda>r. \<lparr>datum = r, id_col = map_of state_id_map (LocationAbbr r),
               geometry = (case map_of state_id_map (LocationAbbr r) of
                             None \<Rightarrow> None | Some i \<Rightarrow> states i)\<rparr>)
       (filter (\<lambda>r. selection_test hover_year st (YearStart r) \<and>
                    (case map_of state_id_map (LocationAbbr r) of
                       None \<Rightarrow> None | Some i \<Rightarrow> states i) \<noteq> None \<and>
                    is_Fin (Data_Value r)) df)"
  by (induction df)
    (simp_all add: bottom_map_def mark_geoshape_def transform_filter_def transform_lookup_def
      add_id_def)

lemma datum_bottom_map:
  "map datum (bottom_map states st df) =
     filter (\<lambda>r. selection_test hover_year st (YearStart r) \<and>
                  (case map_of state_id_map (LocationAbbr r) of
                     None \<Rightarrow> None | Some i \<Rightarrow> states i) \<noteq> None \<and>
                  is_Fin (Data_Value r)) df"
  by (simp add: bottom_map_marks comp_def)

lemma rendered_regions_bottom_map:
  "rendered_regions (bottom_map states st df) =
     LocationAbbr ` {r \<in> set df. selection_test hover_year st (YearStart r) \<and>
                  (case map_of state_id_map (LocationAbbr r) of
                     None \<Rightarrow> None | Some i \<Rightarrow> states i) \<noteq> None \<and>
                  is_Fin (Data_Value r)}"
proof -
  have "rendered_regions (bottom_map states st df) =
        LocationAbbr ` set (map datum (bottom_map states st df))"
    by (simp add: rendered_regions_def image_image)
  then show ?thesis by (simp add: datum_bottom_map)
qed

lemma selection_test_hover_year:
  "selection_test hover_year st y \<longleftrightarrow> st = Some y"
  by (cases st) (auto simp: selection_test_def hover_year_def)

text \<open>
  C2. In the Trend+Map view, for every state of the selection \<open>hovered_year\<close>: while the
  selection is empty, the set of regions the map draws is empty; when it is set to a year,
  the set of regions drawn is exactly the set of the regions of the rows of that year whose
  abbreviation has an entry in the static region mapping. The boundary data is taken to
  hold a shape for every identifier of the mapping, and every row of the table to hold a
  value.
\<close>

theorem map_follows_selection:
  "rendered_regions (snd (make_trend_and_map states None df)) = {} \<and>
   ((\<forall>i\<in>snd ` set state_id_map. states i \<noteq> None) \<and> (\<forall>r\<in>set df. is_Fin (Data_Value r)) \<longrightarrow>
    rendered_regions (snd (make_trend_and_map states (Some y) df)) =
      LocationAbbr ` {r \<in> set df. YearStart r = y \<and> map_of state_id_map (LocationAbbr r) \<noteq> None})"
proof (intro conjI impI)
  show "rendered_regions (snd (make_trend_and_map states None df)) = {}"
    by (simp add: make_trend_and_map_def rendered_regions_bottom_map selection_test_hover_year)
next
  assume h: "(\<forall>i\<in>snd ` set state_id_map. states i \<noteq> None) \<and> (\<forall>r\<in>set df. is_Fin (Data_Value r))"
  have "\<And>a. (case map_of state_id_map a of None \<Rightarrow> None | Some i \<Rightarrow> states i) \<noteq> None
          \<longleftrightarrow> map_of state_id_map a \<noteq> None"
  proof -
    fix a
    show "(case map_of state_id_map a of None \<Rightarrow> None | Some i \<Rightarrow> states i) \<noteq> None
          \<longleftrightarrow> map_of state_id_map a \<noteq> None"
    proof (cases "map_of state_id_map a")
      case None
      then show ?thesis by simp
    next
      case (Some i)
      then have "(a, i) \<in> set state_id_map" by (rule map_of_SomeD)
      then have "i \<in> snd ` set state_id_map" by force
      with h have "states i \<noteq> None" by blast
      with Some show ?thesis by simp
    qed
  qed
  with h show "rendered_regions (snd (make_trend_and_map states (Some y) df)) =
      LocationAbbr ` {r \<in> set df. YearStart r = y \<and> map_of state_id_map (LocationAbbr r) \<noteq> None}"
    by (auto simp: make_trend_and_map_def rendered_regions_bottom_map selection_test_hover_year)
qed

lemma example_lookups:
  "map_of state_id_map ''AL'' = Some 1" "map_of state_id_map ''TX'' = Some 48"
  "map_of state_id_map ''ZZ'' = None" "map_of state_id_map ''PR'' = None"
  by (simp_all add: state_id_map_def)

lemma example_shapes: "example_states 1 = Some 1" "example_states 48 = Some 48"
  by (simp_all add: example_states_def state_id_map_def)

lemma example_states_complete:
  "list_all (\<lambda>i. example_states i \<noteq> None) (map snd state_id_map)"
  by (simp add: example_states_def list_all_iff)

theorem map_follows_selection_witness:
  "list_all (\<lambda>i. example_states i \<noteq> None) (map snd state_id_map) \<and>
   list_all (\<lambda>r. is_Fin (Data_Value r)) table_A \<and>
   rendered_regions (snd (make_trend_and_map example_states None table_A)) = {} \<and>
   rendered_regions (snd (make_trend_and_map example_states (Some 2015) table_A)) =
     {''AL'', ''TX''}"
proof -
  note h1 = example_states_complete
  have h2: "list_all (\<lambda>r. is_Fin (Data_Value r)) table_A"
    by (simp add: table_A_def region_def)
  from h1 h2 have h: "(\<forall>i\<in>snd ` set state_id_map. example_states i \<noteq> None) \<and>
      (\<forall>r\<in>set table_A. is_Fin (Data_Value r))"
    by (simp add: list_all_iff)
  have "{r \<in> set table_A. YearStart r = 2015 \<and>
      map_of state_id_map (LocationAbbr r) \<noteq> None} =
      set (filter (\<lambda>r. YearStart r = 2015 \<and>
      map_of state_id_map (LocationAbbr r) \<noteq> None) table_A)"
    by simp
  also have "filter (\<lambda>r. YearStart r = 2015 \<and>
      map_of state_id_map (LocationAbbr r) \<noteq> None) table_A =
      [region 2015 ''AL'' ''Alabama'' (Fin 35), region 2015 ''TX'' ''Texas'' (Fin 31)]"
    by (simp add: table_A_def region_def example_lookups)
  finally have s: "LocationAbbr ` {r \<in> set table_A. YearStart r = 2015 \<and>
      map_of state_id_map (LocationAbbr r) \<noteq> None} = {''AL'', ''TX''}"
    by (simp add: region_def)
  note t = map_follows_selection [of example_states table_A 2015]
  from t have e: "rendered_regions (snd (make_trend_and_map example_states None table_A)) = {}"
    by (rule conjunct1)
  from t have "(\<forall>i\<in>snd ` set state_id_map. example_states i \<noteq> None) \<and>
      (\<forall>r\<in>set table_A. is_Fin (Data_Value r)) \<longrightarrow>
    rendered_regions (snd (make_trend_and_map example_states (Some 2015) table_A)) =
      LocationAbbr ` {r \<in> set table_A. YearStart r = 2015 \<and>
        map_of state_id_map (LocationAbbr r) \<noteq> None}"
    by (rule conjunct2)
  from this h
  have "rendered_regions (snd (make_trend_and_map example_states (Some 2015) table_A)) =
      LocationAbbr ` {r \<in> set table_A. YearStart r = 2015 \<and>
        map_of state_id_map (LocationAbbr r) \<noteq> None}"
    by (rule mp)
  then have "rendered_regions (snd (make_trend_and_map example_states (Some 2015) table_A)) =
     {''AL'', ''TX''}"
    unfolding s .
  with h1 h2 e show ?thesis by blast
qed



text \<open>
  C9. For every row of the map table whose region abbreviation has no entry in the static
  region mapping, the row is not among the rows the map draws, whatever the selection and
  the boundary data, and the marks drawn are those of the table without the rows of
  unmapped regions. Nothing can fail: the lookup in the mapping yields a missing
  identifier, the lookup of the shape a null shape.
\<close>

theorem unmapped_region_dropped:
  assumes "r \<in> set df" and "map_of state_id_map (LocationAbbr r) = None"
  shows "r \<notin> datum ` set (snd (make_trend_and_map states st df)) \<and>
         snd (make_trend_and_map states st df) =
         snd (make_trend_and_map states st
                (filter (\<lambda>r. map_of state_id_map (LocationAbbr r) \<noteq> None) df))"
proof
  have "datum ` set (bottom_map states st df) = set (map datum (bottom_map states st df))"
    by simp
  with assms(2) show "r \<notin> datum ` set (snd (make_trend_and_map states st df))"
    by (simp add: make_trend_and_map_def datum_bottom_map)
next
  have "filter (\<lambda>r. selection_test hover_year st (YearStart r) \<and>
                    (case map_of state_id_map (LocationAbbr r) of
                       None \<Rightarrow> None | Some i \<Rightarrow> states i) \<noteq> None \<and>
                    is_Fin (Data_Value r))
          (filter (\<lambda>r. map_of state_id_map (LocationAbbr r) \<noteq> None) df) =
        filter (\<lambda>r. selection_test hover_year st (YearStart r) \<and>
                    (case map_of state_id_map (LocationAbbr r) of
                       None \<Rightarrow> None | Some i \<Rightarrow> states i) \<noteq> None \<and>
                    is_Fin (Data_Value r)) df"
    by (induction df) auto
  then show "snd (make_trend_and_map states st df) =
         snd (make_trend_and_map states st
                (filter (\<lambda>r. map_of state_id_map (LocationAbbr r) \<noteq> None) df))"
    by (simp add: make_trend_and_map_def bottom_map_marks)
qed

theorem unmapped_region_dropped_witness:
  "region 2015 ''ZZ'' ''Unknown'' (Fin 30) \<in> set table_A \<and>
   map_of state_id_map ''ZZ'' = None \<and>
   region 2015 ''ZZ'' ''Unknown'' (Fin 30) \<notin>
     datum ` set (snd (make_trend_and_map example_states (Some 2015) table_A)) \<and>
   map (\<lambda>m. LocationAbbr (datum m))
     (snd (make_trend_and_map example_states (Some 2015) table_A)) = [''AL'', ''TX'']"
proof -
  have h: "region 2015 ''ZZ'' ''Unknown'' (Fin 30) \<in> set table_A"
    "map_of state_id_map (LocationAbbr (region 2015 ''ZZ'' ''Unknown'' (Fin 30))) = None"
    by (simp_all add: table_A_def region_def example_lookups)
  have m: "map (\<lambda>m. LocationAbbr (datum m))
     (snd (make_trend_and_map example_states (Some 2015) table_A)) = [''AL'', ''TX'']"
    by (simp add: make_trend_and_map_def bottom_map_marks selection_test_hover_year
        table_A_def region_def example_lookups example_shapes)
  from unmapped_region_dropped [OF h, of example_states "Some 2015"]
  have "region 2015 ''ZZ'' ''Unknown'' (Fin 30) \<notin>
     datum ` set (snd (make_trend_and_map example_states (Some 2015) table_A))"
    by (rule conjunct1)
  with h(1) example_lookups(3) m show ?thesis by blast
qed



lemma map_of_trend_line:
  "map_of (trend_line df) y =
     (if y \<in> YearStart ` set df
      then Some (vl_mean (map Data_Value (filter (\<lambda>r. YearStart r = y) df)))
      else None)"
proof -
  have "map_of (map (\<lambda>y. (y, f y)) ys) y = (if y \<in> set ys then Some (f y) else None)" for f :: "int \<Rightarrow> real option" and ys
    by (induction ys) auto
  then show ?thesis by (simp add: trend_line_def)
qed

lemma vl_mean_finite:
  assumes "list_all is_Fin vs" and "vs \<noteq> []"
  shows "vl_mean vs = Some (sum_list (map real_of vs) / real (length vs))"
proof -
  from assms(1) have "filter is_Fin vs = vs" by (induction vs) simp_all
  with assms(2) show ?thesis by (simp add: vl_mean_def)
qed

lemma trend_line_cong:
  assumes "map YearStart df' = map YearStart df" and "map Data_Value df' = map Data_Value df"
  shows "trend_line df' = trend_line df"
proof -
  have "map Data_Value (filter (\<lambda>r. YearStart r = y) df') =
        map Data_Value (filter (\<lambda>r. YearStart r = y) df)" for y
    using assms
  proof (induction df arbitrary: df')
    case Nil
    then show ?case by simp
  next
    case (Cons r df)
    then obtain r' df'' where "df' = r' # df''" by (cases df') auto
    with Cons show ?case by auto
  qed
  with assms(1) show ?thesis by (simp add: trend_line_def)
qed

lemma trend_scenario: "trend_line table_A = [(2015, Some 32), (2016, Some 33)]"
  by (simp add: trend_line_def vl_mean_def table_defs)

lemma table_A_sized_columns:
  "map YearStart table_A_sized = map YearStart table_A \<and>
   map Data_Value table_A_sized = map Data_Value table_A"
  by (simp add: table_A_sized_def table_defs map_row.defs)

text \<open>
  C3. The Trend+Map builder computes the national trend of a year as the unweighted mean of
  the value field over the raw rows of that year: the sum of the values divided by the
  number of rows. No other column enters it: two tables with the same years and values,
  whatever their other columns (sample sizes among them), have the same trend. The
  age-heatmap and the income builder, in contrast, give every key \<open>weighted_mean\<close> of its
  rows.
\<close>

theorem trend_is_unweighted_mean:
  "(y \<in> YearStart ` set df \<and>
    list_all (\<lambda>r. is_Fin (Data_Value r)) (filter (\<lambda>r. YearStart r = y) df) \<longrightarrow>
    map_of (fst (make_trend_and_map states st df)) y =
      Some (Some (sum_list (map (\<lambda>r. real_of (Data_Value r)) (filter (\<lambda>r. YearStart r = y) df)) /
                  real (length (filter (\<lambda>r. YearStart r = y) df))))) \<and>
   (map YearStart df' = map YearStart df \<and> map Data_Value df' = map Data_Value df \<longrightarrow>
    fst (make_trend_and_map states' st' df') = fst (make_trend_and_map states st df)) \<and>
   (df_nat df_age = Inr rows \<longrightarrow>
    (\<forall>row\<in>set rows.
       obesity_rate row =
         weighted_mean (get_group (year row, age_group row) (dropna (coerce_sample_size df_age)))
           Data_Value Sample_Size)) \<and>
   (aggregate_income df_income = Inr agg \<longrightarrow>
    (\<forall>row\<in>set agg.
       Data_Value row =
         weighted_mean
           (get_group (YearStart row, Stratification1 row)
              (dropna (coerce_sample_size df_income)))
           Data_Value Sample_Size))"
proof (intro conjI impI)
  assume h: "y \<in> YearStart ` set df \<and>
    list_all (\<lambda>r. is_Fin (Data_Value r)) (filter (\<lambda>r. YearStart r = y) df)"
  let ?rows = "filter (\<lambda>r. YearStart r = y) df"
  from h have ne: "map Data_Value ?rows \<noteq> []"
    by (auto simp: filter_empty_conv)
  from h have fin: "list_all is_Fin (map Data_Value ?rows)"
    by (simp add: list_all_iff)
  have m: "map real_of (map Data_Value ?rows) = map (\<lambda>r. real_of (Data_Value r)) ?rows"
    by (simp add: comp_def)
  have v: "vl_mean (map Data_Value ?rows) =
      Some (sum_list (map (\<lambda>r. real_of (Data_Value r)) ?rows) / real (length ?rows))"
    using vl_mean_finite [OF fin ne] unfolding m by simp
  have t: "map_of (fst (make_trend_and_map states st df)) y =
      Some (vl_mean (map Data_Value ?rows))"
    using h by (simp add: make_trend_and_map_def map_of_trend_line)
  show "map_of (fst (make_trend_and_map states st df)) y =
      Some (Some (sum_list (map (\<lambda>r. real_of (Data_Value r)) ?rows) / real (length ?rows)))"
    unfolding t v ..
next
  assume "map YearStart df' = map YearStart df \<and> map Data_Value df' = map Data_Value df"
  then have "trend_line df' = trend_line df"
    by (intro trend_line_cong) simp_all
  then show "fst (make_trend_and_map states' st' df') = fst (make_trend_and_map states st df)"
    by (simp add: make_trend_and_map_def)
next
  assume "df_nat df_age = Inr rows"
  then show "\<forall>row\<in>set rows.
       obesity_rate row =
         weighted_mean (get_group (year row, age_group row) (dropna (coerce_sample_size df_age)))
           Data_Value Sample_Size"
    by (auto simp: df_nat_rows split: if_splits)
next
  assume "aggregate_income df_income = Inr agg"
  then show "\<forall>row\<in>set agg.
       Data_Value row =
         weighted_mean
           (get_group (YearStart row, Stratification1 row)
              (dropna (coerce_sample_size df_income)))
           Data_Value Sample_Size"
    by (auto simp: aggregate_income_rows split: if_splits)
qed

theorem trend_is_unweighted_mean_witness:
  "2015 \<in> YearStart ` set table_A \<and>
   list_all (\<lambda>r. is_Fin (Data_Value r)) (filter (\<lambda>r. YearStart r = 2015) table_A) \<and>
   map_of (fst (make_trend_and_map example_states None table_A)) 2015 =
     Some (Some ((35 + 30 + 31) / 3)) \<and>
   fst (make_trend_and_map example_states None table_A_sized) =
     fst (make_trend_and_map example_states None table_A)"
proof -
  have h: "2015 \<in> YearStart ` set table_A \<and>
     list_all (\<lambda>r. is_Fin (Data_Value r)) (filter (\<lambda>r. YearStart r = 2015) table_A)"
    by (simp add: table_defs)
  have v: "sum_list (map (\<lambda>r. real_of (Data_Value r)) (filter (\<lambda>r. YearStart r = 2015) table_A)) /
        real (length (filter (\<lambda>r. YearStart r = 2015) table_A)) = (35 + 30 + 31) / 3"
    by (simp add: table_defs)
  note t = trend_is_unweighted_mean [of 2015 table_A example_states None table_A_sized
      example_states None table_B "[]" table_C "[]"]
  from t have "2015 \<in> YearStart ` set table_A \<and>
     list_all (\<lambda>r. is_Fin (Data_Value r)) (filter (\<lambda>r. YearStart r = 2015) table_A) \<longrightarrow>
     map_of (fst (make_trend_and_map example_states None table_A)) 2015 =
       Some (Some (sum_list (map (\<lambda>r. real_of (Data_Value r))
                     (filter (\<lambda>r. YearStart r = 2015) table_A)) /
                   real (length (filter (\<lambda>r. YearStart r = 2015) table_A))))"
    by (rule conjunct1)
  from this h have "map_of (fst (make_trend_and_map example_states None table_A)) 2015 =
       Some (Some (sum_list (map (\<lambda>r. real_of (Data_Value r))
                     (filter (\<lambda>r. YearStart r = 2015) table_A)) /
                   real (length (filter (\<lambda>r. YearStart r = 2015) table_A))))"
    by (rule mp)
  then have a: "map_of (fst (make_trend_and_map example_states None table_A)) 2015 =
     Some (Some ((35 + 30 + 31) / 3))"
    unfolding v .
  from t have "map YearStart table_A_sized = map YearStart table_A \<and>
      map Data_Value table_A_sized = map Data_Value table_A \<longrightarrow>
    fst (make_trend_and_map example_states None table_A_sized) =
      fst (make_trend_and_map example_states None table_A)"
    by (rule conjunct2 [THEN conjunct1])
  from this table_A_sized_columns
  have b: "fst (make_trend_and_map example_states None table_A_sized) =
     fst (make_trend_and_map example_states None table_A)"
    by (rule mp)
  from h a b show ?thesis by blast
qed

end
